theory Spec2Isabelle
  imports Complex_Main "HOL-Library.Sublist"
begin

section \<open>JavaScript strings\<close>

text \<open>
  A JavaScript string is a sequence of UTF-16 code units; \<open>length\<close>, \<open>slice\<close>,
  \<open>indexOf\<close> and the character class of a regular expression without the \<open>u\<close> flag
  all count code units. A code unit is modelled by its number.
\<close>

type_synonym jsstring = "nat list"

definition str :: "string \<Rightarrow> jsstring" where
  "str s = map of_char s"

text \<open>
  \<open>String.prototype.toLowerCase\<close> and \<open>String.prototype.normalize('NFD')\<close> are driven by
  the Unicode character database, which is not part of the repository: both are parameters
  of the model.
\<close>

record unicode =
  toLowerCase :: "jsstring \<Rightarrow> jsstring"
  normalizeNFD :: "jsstring \<Rightarrow> jsstring"

text \<open>
  The restriction of both tables to Basic Latin and the Latin-1 Supplement (U+0000 to
  U+00FF), used to evaluate the functions on inputs of that range only. The upper-case
  letters \<open>A\<close> to \<open>Z\<close> and U+00C0 to U+00DE (without the multiplication sign U+00D7)
  have their lower case 32 positions further. \<open>latin1_decomposition\<close> lists the
  upper-case letters with a canonical decomposition, each with its base letter and its
  combining mark; the lower-case letters decompose alike, and so does U+00FF.
\<close>

definition latin1_lower :: "nat \<Rightarrow> nat" where
  "latin1_lower c =
     (if (65 \<le> c \<and> c \<le> 90) \<or> (192 \<le> c \<and> c \<le> 222 \<and> c \<noteq> 215) then c + 32 else c)"

definition latin1_decomposition :: "(nat \<times> nat \<times> nat) list" where
  "latin1_decomposition =
     [(192, 65, 768), (193, 65, 769), (194, 65, 770), (195, 65, 771), (196, 65, 776),
      (197, 65, 778), (199, 67, 807), (200, 69, 768), (201, 69, 769), (202, 69, 770),
      (203, 69, 776), (204, 73, 768), (205, 73, 769), (206, 73, 770), (207, 73, 776),
      (209, 78, 771), (210, 79, 768), (211, 79, 769), (212, 79, 770), (213, 79, 771),
      (214, 79, 776), (217, 85, 768), (218, 85, 769), (219, 85, 770), (220, 85, 776),
      (221, 89, 769)]"

definition latin1_nfd :: "nat \<Rightarrow> jsstring" where
  "latin1_nfd c =
     (if c = 255 then [121, 776]
      else case map_of latin1_decomposition c of
             Some (b, m) \<Rightarrow> [b, m]
           | None \<Rightarrow>
               (if 32 \<le> c then
                  (case map_of latin1_decomposition (c - 32) of
                     Some (b, m) \<Rightarrow> [b + 32, m]
                   | None \<Rightarrow> [c])
                else [c]))"

definition latin1 :: unicode where
  "latin1 = \<lparr> toLowerCase = map latin1_lower,
               normalizeNFD = (\<lambda>s. concat (map latin1_nfd s)) \<rparr>"

text \<open>\<open>s.startsWith(q)\<close>, \<open>s.indexOf(q)\<close> (from position 0) and \<open>s.includes(q)\<close>.\<close>

definition startsWith :: "jsstring \<Rightarrow> jsstring \<Rightarrow> bool" where
  "startsWith s q = (take (length q) s = q)"

fun indexOf_from :: "nat \<Rightarrow> jsstring \<Rightarrow> jsstring \<Rightarrow> int" where
  "indexOf_from i [] q = (if q = [] then int i else - 1)"
| "indexOf_from i (c # cs) q =
     (if startsWith (c # cs) q then int i else indexOf_from (Suc i) cs q)"

definition indexOf :: "jsstring \<Rightarrow> jsstring \<Rightarrow> int" where
  "indexOf s q = indexOf_from 0 s q"

definition includes_str :: "jsstring \<Rightarrow> jsstring \<Rightarrow> bool" where
  "includes_str s q = (indexOf s q \<noteq> - 1)"

text \<open>
  \<open>s.slice(a, b)\<close> and \<open>s.slice(a)\<close> for indices that are not negative: both ends are
  clamped to the length, and an end before the start gives the empty string.
\<close>

definition slice :: "jsstring \<Rightarrow> nat \<Rightarrow> nat \<Rightarrow> jsstring" where
  "slice s a b =
     (let from = min a (length s); to = min b (length s)
      in take (to - from) (drop from s))"

definition slice_from :: "jsstring \<Rightarrow> nat \<Rightarrow> jsstring" where
  "slice_from s a = slice s a (length s)"

text \<open>White space and line terminators, as \<open>String.prototype.trim\<close> strips them.\<close>

definition isWhiteSpace :: "nat \<Rightarrow> bool" where
  "isWhiteSpace c =
     (c \<in> {9, 10, 11, 12, 13, 32, 160, 5760, 8232, 8233, 8239, 8287, 12288, 65279}
      \<or> (8192 \<le> c \<and> c \<le> 8202))"

definition trim :: "jsstring \<Rightarrow> jsstring" where
  "trim s = rev (dropWhile isWhiteSpace (rev (dropWhile isWhiteSpace s)))"

text \<open>\<open>s.split(sep)\<close> for a separator of one code unit.\<close>

fun split :: "nat \<Rightarrow> jsstring \<Rightarrow> jsstring list" where
  "split sep [] = [[]]"
| "split sep (c # cs) =
     (if c = sep then [] # split sep cs
      else (case split sep cs of
              [] \<Rightarrow> [[c]]
            | w # ws \<Rightarrow> (c # w) # ws))"

section \<open>The suggestion script\<close>

text \<open>
  \<open>normalize\<close>: lower-case, decompose, then delete every code unit matched by the
  character class from \<open>\0\<close> to \<open>\u036f\<close>, that is every code unit from 0 to 879.
\<close>

definition normalize :: "unicode \<Rightarrow> jsstring \<Rightarrow> jsstring" where
  "normalize U s = filter (\<lambda>c. \<not> c \<le> 879) (normalizeNFD U (toLowerCase U s))"

definition span_open :: jsstring where
  "span_open = str ''<span class=\"bg-yellow-200\">''"

definition span_close :: jsstring where
  "span_close = str ''</span>''"

definition highlightMatch :: "unicode \<Rightarrow> jsstring \<Rightarrow> jsstring \<Rightarrow> jsstring" where
  "highlightMatch U text query =
     (let nQuery = normalize U query;
          nText = normalize U text;
          idx = indexOf nText nQuery
      in if idx < 0 then text
         else slice text 0 (nat idx) @ span_open
              @ slice text (nat idx) (nat idx + length query) @ span_close
              @ slice_from text (nat idx + length query))"

text \<open>
  A row of \<open>results.data\<close> as the CSV parser delivers it with \<open>header: true\<close>: every
  field is a string, or undefined (\<open>None\<close>) where the row is too short.
\<close>

record csv_row =
  row_zip :: "jsstring option"
  row_city :: "jsstring option"
  row_state_id :: "jsstring option"
  row_lat :: "jsstring option"
  row_lng :: "jsstring option"

text \<open>
  A loaded location of the script: the row's fields (all strings) with \<open>display\<close> and
  \<open>search\<close> added. The fields carry the prefix \<open>s_\<close> to keep them apart from those of
  the class further down.
\<close>

record script_location =
  s_zip :: jsstring
  s_city :: jsstring
  s_state_id :: jsstring
  s_lat :: jsstring
  s_lng :: jsstring
  s_display :: jsstring
  s_search :: jsstring

text \<open>
  The \<open>complete\<close> callback: rows with a missing or empty field are filtered out (a
  string is truthy when it is defined and not empty), the others get their display text
  and their search key.
\<close>

definition loadLocations :: "csv_row list \<Rightarrow> script_location list" where
  "loadLocations data =
     List.map_filter
       (\<lambda>r. case (row_zip r, row_city r, row_state_id r, row_lat r, row_lng r) of
              (Some z, Some c, Some s, Some la, Some lo) \<Rightarrow>
                if z \<noteq> [] \<and> c \<noteq> [] \<and> s \<noteq> [] \<and> la \<noteq> [] \<and> lo \<noteq> []
                then Some \<lparr> s_zip = z, s_city = c, s_state_id = s, s_lat = la, s_lng = lo,
                             s_display = c @ str '', '' @ s @ str '' '' @ z,
                             s_search = z @ str '' '' @ c @ str '' '' @ s \<rparr>
                else None
            | _ \<Rightarrow> None)
       data"

text \<open>The suggestion box: its \<open>hidden\<close> class and its list items.\<close>

record suggestion_item =
  item_location :: script_location
  item_html :: jsstring

record suggestions_box =
  hidden :: bool
  innerHTML :: "suggestion_item list"

definition matches ::
  "unicode \<Rightarrow> script_location list \<Rightarrow> jsstring \<Rightarrow> script_location list" where
  "matches U locations query =
     (let q = normalize U query
      in take 15 (filter (\<lambda>loc. startsWith (normalize U (s_zip loc)) q
                              \<or> includes_str (normalize U (s_city loc)) q
                              \<or> startsWith (normalize U (s_state_id loc)) q) locations))"

definition showSuggestions ::
  "unicode \<Rightarrow> script_location list \<Rightarrow> jsstring \<Rightarrow> suggestions_box
     \<Rightarrow> suggestions_box" where
  "showSuggestions U locations query box =
     (if query = [] \<or> length query < 2 then box\<lparr>hidden := True, innerHTML := []\<rparr>
      else if length (matches U locations query) = 0
        then box\<lparr>hidden := True, innerHTML := []\<rparr>
      else box\<lparr>innerHTML :=
                  map (\<lambda>loc. \<lparr>item_location = loc,
                              item_html = highlightMatch U (s_display loc) query\<rparr>)
                    (matches U locations query),
                hidden := False\<rparr>)"

section \<open>JavaScript numbers\<close>

text \<open>
  A Number is \<open>NaN\<close>, an infinity or a finite value. Finite values are exact rationals:
  the rounding of binary floating point, the overflow of a huge literal to an infinity and
  the sign of zero are not modelled.
\<close>

datatype jsnum = NaN | PosInf | NegInf | Fin rat

definition isNaN :: "jsnum \<Rightarrow> bool" where
  "isNaN x = (x = NaN)"

definition sign_of :: "jsnum \<Rightarrow> rat" where
  "sign_of x = (case x of NaN \<Rightarrow> 0 | PosInf \<Rightarrow> 1 | NegInf \<Rightarrow> - 1 | Fin a \<Rightarrow> sgn a)"

definition inf_of_sign :: "rat \<Rightarrow> jsnum" where
  "inf_of_sign s = (if 0 < s then PosInf else if s < 0 then NegInf else NaN)"

definition js_times :: "jsnum \<Rightarrow> jsnum \<Rightarrow> jsnum" where
  "js_times x y =
     (case (x, y) of
        (NaN, _) \<Rightarrow> NaN
      | (_, NaN) \<Rightarrow> NaN
      | (Fin a, Fin b) \<Rightarrow> Fin (a * b)
      | _ \<Rightarrow> inf_of_sign (sign_of x * sign_of y))"

definition js_divide :: "jsnum \<Rightarrow> jsnum \<Rightarrow> jsnum" where
  "js_divide x y =
     (case (x, y) of
        (NaN, _) \<Rightarrow> NaN
      | (_, NaN) \<Rightarrow> NaN
      | (Fin a, Fin b) \<Rightarrow> (if b = 0 then inf_of_sign (sgn a) else Fin (a / b))
      | (Fin a, _) \<Rightarrow> Fin 0
      | (_, Fin b) \<Rightarrow> inf_of_sign (sign_of x * (if b < 0 then - 1 else 1))
      | _ \<Rightarrow> NaN)"

definition js_plus :: "jsnum \<Rightarrow> jsnum \<Rightarrow> jsnum" where
  "js_plus x y =
     (case (x, y) of
        (NaN, _) \<Rightarrow> NaN
      | (_, NaN) \<Rightarrow> NaN
      | (Fin a, Fin b) \<Rightarrow> Fin (a + b)
      | (Fin a, _) \<Rightarrow> y
      | (_, Fin b) \<Rightarrow> x
      | _ \<Rightarrow> (if x = y then x else NaN))"

text \<open>\<open>x % y\<close>: the remainder has the sign of the dividend.\<close>

definition js_rem :: "jsnum \<Rightarrow> jsnum \<Rightarrow> jsnum" where
  "js_rem x y =
     (case (x, y) of
        (Fin a, Fin b) \<Rightarrow>
          (if b = 0 then NaN
           else Fin (a - b * of_int (if 0 \<le> a / b then \<lfloor>a / b\<rfloor> else \<lceil>a / b\<rceil>)))
      | (Fin a, PosInf) \<Rightarrow> Fin a
      | (Fin a, NegInf) \<Rightarrow> Fin a
      | _ \<Rightarrow> NaN)"

text \<open>\<open>Math.round\<close>: the nearest integer, a tie going up.\<close>

definition Math_round :: "jsnum \<Rightarrow> jsnum" where
  "Math_round x = (case x of Fin a \<Rightarrow> Fin (of_int \<lfloor>a + 1 / 2\<rfloor>) | _ \<Rightarrow> x)"

text \<open>
  \<open>parseFloat\<close>: leading white space is skipped, then the longest prefix that is a
  decimal literal is read (a sign, then \<open>Infinity\<close> or digits with an optional fraction
  and an optional exponent); what follows is ignored, and no such prefix gives \<open>NaN\<close>.
\<close>

definition isDigit :: "nat \<Rightarrow> bool" where
  "isDigit c = (48 \<le> c \<and> c \<le> 57)"

definition digits_value :: "jsstring \<Rightarrow> int" where
  "digits_value ds = foldl (\<lambda>n c. 10 * n + int (c - 48)) 0 ds"

definition exponent_part :: "jsstring \<Rightarrow> int" where
  "exponent_part r =
     (case r of
        [] \<Rightarrow> 0
      | c # t \<Rightarrow>
          (if c = 101 \<or> c = 69 then
             (case t of
                [] \<Rightarrow> 0
              | d # u \<Rightarrow>
                  (if d = 45 then
                     (if takeWhile isDigit u = [] then 0
                      else - digits_value (takeWhile isDigit u))
                   else if d = 43 then digits_value (takeWhile isDigit u)
                   else digits_value (takeWhile isDigit t)))
           else 0))"

definition unsigned_literal :: "jsstring \<Rightarrow> jsnum" where
  "unsigned_literal r =
     (if startsWith r (str ''Infinity'') then PosInf
      else
        (let ip = takeWhile isDigit r;
             r1 = dropWhile isDigit r;
             fp = (case r1 of [] \<Rightarrow> [] | c # t \<Rightarrow> if c = 46 then takeWhile isDigit t else []);
             r2 = (case r1 of [] \<Rightarrow> [] | c # t \<Rightarrow> if c = 46 then dropWhile isDigit t else r1)
         in if ip = [] \<and> fp = [] then NaN
            else Fin (of_int (digits_value (ip @ fp)) / 10 ^ length fp
                      * 10 powi exponent_part r2)))"

definition parseFloat :: "jsstring \<Rightarrow> jsnum" where
  "parseFloat s =
     (case dropWhile isWhiteSpace s of
        [] \<Rightarrow> NaN
      | c # r \<Rightarrow>
          (if c = 45 then js_times (Fin (- 1)) (unsigned_literal r)
           else if c = 43 then unsigned_literal r
           else unsigned_literal (c # r)))"

text \<open>An argument that is undefined is converted to the string \<open>undefined\<close> first.\<close>

definition parseFloat_arg :: "jsstring option \<Rightarrow> jsnum" where
  "parseFloat_arg v = (case v of None \<Rightarrow> parseFloat (str ''undefined'') | Some s \<Rightarrow> parseFloat s)"

text \<open>
  What it is for a field of the file to be numeric, in words rather than as the parser
  computes it: after optional white space and an optional sign, the field goes on with
  \<open>Infinity\<close>, with a digit, or with a point and a digit. \<open>parseFloat\<close> is compared
  with it below.
\<close>

definition after_sign :: "jsstring \<Rightarrow> jsstring" where
  "after_sign s =
     (case dropWhile isWhiteSpace s of
        [] \<Rightarrow> []
      | c # r \<Rightarrow> if c = 45 \<or> c = 43 then r else c # r)"

definition starts_with_number :: "jsstring \<Rightarrow> bool" where
  "starts_with_number s =
     (startsWith (after_sign s) (str ''Infinity'')
      \<or> (case after_sign s of
            [] \<Rightarrow> False
          | c # t \<Rightarrow>
              isDigit c \<or> (c = 46 \<and> (case t of [] \<Rightarrow> False | d # u \<Rightarrow> isDigit d))))"

section \<open>The class \<open>LocationSearch\<close>: loading and searching\<close>

datatype error = TypeError | SyntaxError | NetworkError | Error jsstring

text \<open>A location of the class; the field \<open>zip\<close> is called \<open>zip_code\<close> here.\<close>

record location =
  zip_code :: jsstring
  lat :: jsnum
  lng :: jsnum
  city :: jsstring
  state :: jsstring
  displayText :: jsstring

text \<open>\<open>values[i]\<close>: undefined (\<open>None\<close>) beyond the end of the array.\<close>

definition elem_at :: "'a list \<Rightarrow> nat \<Rightarrow> 'a option" where
  "elem_at xs i = (if i < length xs then Some (xs ! i) else None)"

text \<open>
  The callback of \<open>lines.slice(1).map\<close>. \<open>split\<close> returns at least one string, so
  \<open>values[0].trim()\<close> is safe; \<open>values[3].trim()\<close> raises a TypeError on a line of
  fewer than four fields; a fifth field that is missing or empty becomes \<open>Unknown\<close>.
\<close>

definition parse_line :: "jsstring \<Rightarrow> error + location" where
  "parse_line line =
     (let values = split 44 line
      in case (elem_at values 0, elem_at values 3) of
           (Some v0, Some v3) \<Rightarrow>
             (let st = (case elem_at values 4 of
                          None \<Rightarrow> str ''Unknown''
                        | Some v4 \<Rightarrow> if v4 = [] then str ''Unknown'' else trim v4)
              in Inr \<lparr> zip_code = trim v0,
                       lat = parseFloat_arg (elem_at values 1),
                       lng = parseFloat_arg (elem_at values 2),
                       city = trim v3,
                       state = st,
                       displayText = trim v3 @ str '', '' @ st @ str '' '' @ trim v0 \<rparr>)
         | _ \<Rightarrow> Inl TypeError)"

text \<open>\<open>Array.prototype.map\<close> with a callback that may raise: the first error ends it.\<close>

fun try_map :: "('a \<Rightarrow> error + 'b) \<Rightarrow> 'a list \<Rightarrow> error + 'b list" where
  "try_map f [] = Inr []"
| "try_map f (x # xs) =
     (case f x of
        Inl e \<Rightarrow> Inl e
      | Inr y \<Rightarrow> (case try_map f xs of Inl e \<Rightarrow> Inl e | Inr ys \<Rightarrow> Inr (y # ys)))"

text \<open>The body of the \<open>try\<close> block of \<open>loadLocations\<close>, from the text of the file on.\<close>

definition parse_csv :: "jsstring \<Rightarrow> error + location list" where
  "parse_csv csvText =
     (case try_map parse_line (drop 1 (split 10 (trim csvText))) of
        Inl e \<Rightarrow> Inl e
      | Inr rows \<Rightarrow> Inr (filter (\<lambda>l. \<not> isNaN (lat l) \<and> \<not> isNaN (lng l)) rows))"

text \<open>
  The widget: the fields of the class and what it shows in the suggestions container
  (its \<open>hidden\<close> class and the text of its items).
\<close>

record LocationSearch =
  locations :: "location list"
  currentSuggestions :: "location list"
  selectedIndex :: int
  searchInput_value :: jsstring
  suggestionsContainer_hidden :: bool
  suggestionsContainer_items :: "jsstring list"

text \<open>
  The body of \<open>loadLocations\<close> after the file has been fetched and read (\<open>Inl\<close>: the
  fetch or the read was rejected). The \<open>catch\<close> block only logs, so an error leaves
  \<open>this.locations\<close> as it was. Console output is not modelled.
\<close>

definition LocationSearch_loadLocations ::
  "error + jsstring \<Rightarrow> LocationSearch \<Rightarrow> LocationSearch" where
  "LocationSearch_loadLocations fetched this =
     (case fetched of
        Inl e \<Rightarrow> this
      | Inr csvText \<Rightarrow>
          (case parse_csv csvText of
             Inl e \<Rightarrow> this
           | Inr locs \<Rightarrow> this\<lparr>locations := locs\<rparr>))"

definition hideSuggestions :: "LocationSearch \<Rightarrow> LocationSearch" where
  "hideSuggestions this =
     this\<lparr>suggestionsContainer_hidden := True, currentSuggestions := [],
          selectedIndex := - 1\<rparr>"

definition renderSuggestions :: "LocationSearch \<Rightarrow> LocationSearch" where
  "renderSuggestions this =
     this\<lparr>suggestionsContainer_items := map displayText (currentSuggestions this)\<rparr>"

definition LocationSearch_showSuggestions ::
  "unicode \<Rightarrow> jsstring \<Rightarrow> LocationSearch \<Rightarrow> LocationSearch" where
  "LocationSearch_showSuggestions U query this =
     (let queryLower = toLowerCase U query;
          this1 = this\<lparr>currentSuggestions :=
                    take 10 (filter
                      (\<lambda>location.
                         if city location = [] \<or> state location = [] \<or> zip_code location = []
                         then False
                         else includes_str (toLowerCase U (city location)) queryLower
                              \<or> includes_str (toLowerCase U (state location)) queryLower
                              \<or> includes_str (zip_code location) query)
                      (locations this))\<rparr>
      in if length (currentSuggestions this1) = 0 then hideSuggestions this1
         else (renderSuggestions this1)\<lparr>suggestionsContainer_hidden := False\<rparr>)"

definition handleInput :: "unicode \<Rightarrow> jsstring \<Rightarrow> LocationSearch \<Rightarrow> LocationSearch" where
  "handleInput U target_value this =
     (let query = trim target_value
      in if length query < 2 then hideSuggestions this
         else LocationSearch_showSuggestions U query this)"

section \<open>Utility functions\<close>

definition celsiusToFahrenheit :: "jsnum \<Rightarrow> jsnum" where
  "celsiusToFahrenheit celsius = js_plus (js_divide (js_times celsius (Fin 9)) (Fin 5)) (Fin 32)"

definition mpsToMph :: "jsnum \<Rightarrow> jsnum" where
  "mpsToMph mps = js_times mps (Fin (2237 / 1000))"

definition directions :: "jsstring list" where
  "directions =
     map str [''N'', ''NNE'', ''NE'', ''ENE'', ''E'', ''ESE'', ''SE'', ''SSE'',
              ''S'', ''SSW'', ''SW'', ''WSW'', ''W'', ''WNW'', ''NW'', ''NNW'']"

text \<open>
  A value read from the API or from an array: absent (undefined), null, or a value.
\<close>

datatype 'a field = Undefined | Null | Val 'a

definition absent :: "'a field \<Rightarrow> bool" where
  "absent v = (case v of Val x \<Rightarrow> False | _ \<Rightarrow> True)"

text \<open>
  \<open>directions[i]\<close>: an element when \<open>i\<close> is an integer from 0 to 15, undefined
  for any other number (a negative one, a fraction, \<open>NaN\<close>).
\<close>

definition directions_at :: "jsnum \<Rightarrow> jsstring field" where
  "directions_at i =
     (case i of
        Fin a \<Rightarrow>
          (if a = of_int \<lfloor>a\<rfloor> \<and> 0 \<le> a \<and> a < 16 then Val (directions ! nat \<lfloor>a\<rfloor>)
           else Undefined)
      | _ \<Rightarrow> Undefined)"

definition degreesToDirection :: "jsnum \<Rightarrow> jsstring field" where
  "degreesToDirection degrees =
     directions_at (js_rem (Math_round (js_divide degrees (Fin (45 / 2)))) (Fin 16))"

section \<open>Weather data and the page\<close>

text \<open>
  The bodies of the API's answers, typed after the API's contract. Every property the
  code reads may be absent or null. A quantity is the object \<open>{ value: ... }\<close>.
\<close>

datatype quantity = Quantity (the_value: "jsnum field")

record observation_properties =
  temperature :: "quantity field"
  textDescription :: "jsstring field"
  relativeHumidity :: "quantity field"
  windSpeed :: "quantity field"
  windDirection :: "quantity field"

datatype observation_data = Observation (observation_properties: "observation_properties field")

record alert_properties =
  event :: "jsstring field"
  headline :: "jsstring field"

datatype alert_feature = Alert (alert_properties: "alert_properties field")

datatype alerts_data = Alerts (features: "alert_feature list field")

record period =
  name :: "jsstring field"
  shortForecast :: "jsstring field"
  period_temperature :: "jsnum field"

datatype forecast_properties = ForecastProperties (periods: "period list field")

datatype forecast_data = Forecast (forecast_properties: "forecast_properties field")

record weather_data =
  current :: "observation_data field"
  forecast :: "forecast_data field"
  alerts :: "alerts_data field"

text \<open>
  Text put on the page by a template literal: literal text and strings are code units, a
  number is kept as the number that \<open>${...}\<close> converts.
\<close>

datatype piece = S jsstring | N jsnum

type_synonym rendered = "piece list"

text \<open>\<open>${v}\<close> for a string or a number that may be undefined or null.\<close>

definition interp :: "jsstring field \<Rightarrow> jsstring" where
  "interp v = (case v of Undefined \<Rightarrow> str ''undefined'' | Null \<Rightarrow> str ''null'' | Val s \<Rightarrow> s)"

definition interp_num :: "jsnum field \<Rightarrow> piece" where
  "interp_num v =
     (case v of Undefined \<Rightarrow> S (str ''undefined'') | Null \<Rightarrow> S (str ''null'') | Val n \<Rightarrow> N n)"

text \<open>Conversion to a number where arithmetic needs one; truthiness.\<close>

definition toNumber :: "jsnum field \<Rightarrow> jsnum" where
  "toNumber v = (case v of Undefined \<Rightarrow> NaN | Null \<Rightarrow> Fin 0 | Val n \<Rightarrow> n)"

definition truthy_num :: "jsnum field \<Rightarrow> bool" where
  "truthy_num v = (case v of Val n \<Rightarrow> n \<noteq> NaN \<and> n \<noteq> Fin 0 | _ \<Rightarrow> False)"

text \<open>
  The elements of the page that the class writes to. The page is taken to contain all of
  them, so that no \<open>querySelector\<close> returns null. The forecast rows and the two blocks
  of markup are kept as the values put into their templates.
\<close>

record forecast_row =
  row_day :: jsstring
  row_icon :: jsstring
  row_short :: jsstring
  row_temperature :: rendered

datatype details_markup = Details (humidity_text: rendered) (windSpeed_text: rendered) (windDirection_text: jsstring)

datatype alert_markup = ActiveAlert (alert_event: jsstring) (alert_headline: jsstring) | NoActiveAlerts

record page =
  locationHeader :: jsstring
  tempElement :: rendered
  conditionElement :: rendered
  detailsContainer :: details_markup
  alertContent :: alert_markup
  forecastContainer :: "forecast_row list"

definition degree_F :: jsstring where
  "degree_F = [176, 70]"

definition updateAlertsUI :: "alerts_data field \<Rightarrow> page \<Rightarrow> error + page" where
  "updateAlertsUI alertsData doc =
     (case alertsData of
        Val (Alerts (Val (first # others))) \<Rightarrow>
          (case alert_properties first of
             Val alert \<Rightarrow>
               Inr (doc\<lparr>alertContent := ActiveAlert (interp (event alert)) (interp (headline alert))\<rparr>)
           | _ \<Rightarrow> Inl TypeError)
      | _ \<Rightarrow> Inr (doc\<lparr>alertContent := NoActiveAlerts\<rparr>))"

definition formatDayName :: "jsstring field \<Rightarrow> error + jsstring" where
  "formatDayName nm =
     (case nm of
        Val s \<Rightarrow>
          Inr (if includes_str s (str ''This'') \<or> includes_str s (str ''Tonight'') then str ''Today''
               else slice s 0 3)
      | _ \<Rightarrow> Inl TypeError)"

definition getWeatherIcon :: "unicode \<Rightarrow> jsstring field \<Rightarrow> error + jsstring" where
  "getWeatherIcon U condition =
     (case condition of
        Val s \<Rightarrow>
          (let conditionLower = toLowerCase U s
           in Inr (if includes_str conditionLower (str ''sunny'')
                      \<or> includes_str conditionLower (str ''clear'') then str ''wb_sunny''
                   else if includes_str conditionLower (str ''cloudy'')
                      \<or> includes_str conditionLower (str ''overcast'') then str ''cloud''
                   else if includes_str conditionLower (str ''rain'')
                      \<or> includes_str conditionLower (str ''shower'') then str ''rainy''
                   else if includes_str conditionLower (str ''snow'') then str ''ac_unit''
                   else if includes_str conditionLower (str ''storm'')
                      \<or> includes_str conditionLower (str ''thunder'') then str ''thunderstorm''
                   else str ''wb_cloudy''))
      | _ \<Rightarrow> Inl TypeError)"

definition forecast_row_of :: "unicode \<Rightarrow> period \<Rightarrow> error + forecast_row" where
  "forecast_row_of U p =
     (case formatDayName (name p) of
        Inl e \<Rightarrow> Inl e
      | Inr d \<Rightarrow>
          (case getWeatherIcon U (shortForecast p) of
             Inl e \<Rightarrow> Inl e
           | Inr i \<Rightarrow>
               Inr \<lparr> row_day = d, row_icon = i, row_short = interp (shortForecast p),
                       row_temperature = [interp_num (period_temperature p), S [176]] \<rparr>))"

definition updateForecastUI :: "unicode \<Rightarrow> forecast_data field \<Rightarrow> page \<Rightarrow> error + page" where
  "updateForecastUI U forecastData doc =
     (case forecastData of
        Val (Forecast (Val (ForecastProperties (Val ps)))) \<Rightarrow>
          (case try_map (forecast_row_of U) (take 7 ps) of
             Inl e \<Rightarrow> Inl e
           | Inr rows \<Rightarrow> Inr (doc\<lparr>forecastContainer := rows\<rparr>))
      | _ \<Rightarrow> Inr doc)"

text \<open>The three updates of the current conditions, in the order of the source.\<close>

definition update_temperature :: "observation_properties \<Rightarrow> page \<Rightarrow> page" where
  "update_temperature cur doc =
     (case temperature cur of
        Val q \<Rightarrow>
          (if truthy_num (the_value q)
           then doc\<lparr>tempElement :=
                      [N (Math_round (celsiusToFahrenheit (toNumber (the_value q)))), S degree_F]\<rparr>
           else doc)
      | _ \<Rightarrow> doc)"

definition update_condition :: "observation_properties \<Rightarrow> page \<Rightarrow> page" where
  "update_condition cur doc =
     (case textDescription cur of
        Val s \<Rightarrow> (if s = [] then doc else doc\<lparr>conditionElement := [S s]\<rparr>)
      | _ \<Rightarrow> doc)"

definition update_details :: "observation_properties \<Rightarrow> page \<Rightarrow> page" where
  "update_details cur doc =
     (let humidity = (case relativeHumidity cur of
                        Val q \<Rightarrow> [N (Math_round (toNumber (the_value q))), S (str ''%'')]
                      | _ \<Rightarrow> [S (str ''N/A'')]);
          windSpeed = (case windSpeed cur of
                         Val q \<Rightarrow> [N (Math_round (mpsToMph (toNumber (the_value q)))), S (str '' mph'')]
                       | _ \<Rightarrow> [S (str ''N/A'')]);
          windDirection = (case windDirection cur of
                             Val q \<Rightarrow> interp (degreesToDirection (toNumber (the_value q)))
                           | _ \<Rightarrow> [])
      in doc\<lparr>detailsContainer := Details humidity windSpeed windDirection\<rparr>)"

definition update_current :: "observation_data field \<Rightarrow> page \<Rightarrow> page" where
  "update_current cur doc =
     (case cur of
        Val (Observation (Val props)) \<Rightarrow>
          update_details props (update_condition props (update_temperature props doc))
      | _ \<Rightarrow> doc)"

definition current_conditions :: jsstring where
  "current_conditions = str ''Current Conditions''"

text \<open>
  \<open>updateWeatherUI(weatherData, message, location)\<close> in its parts: the header, the
  branch that shows a message, and the \<open>try\<close> block that shows the data. An error
  raised while the alerts or the forecast are written is caught and logged: what was
  written before it stays.
\<close>

definition update_header :: "location \<Rightarrow> page \<Rightarrow> page" where
  "update_header location doc =
     (if includes_str (locationHeader doc) current_conditions
      then doc\<lparr>locationHeader :=
                 city location @ str '', '' @ state location @ str '' - ''
                 @ current_conditions\<rparr>
      else doc)"

definition show_message :: "jsstring \<Rightarrow> page \<Rightarrow> page" where
  "show_message message doc =
     doc\<lparr>tempElement := [S ([45, 45] @ degree_F)], conditionElement := [S message]\<rparr>"

definition show_data :: "unicode \<Rightarrow> weather_data \<Rightarrow> page \<Rightarrow> page" where
  "show_data U w doc =
     (let doc2 = update_current (current w) doc
      in case updateAlertsUI (alerts w) doc2 of
           Inl e \<Rightarrow> doc2
         | Inr doc3 \<Rightarrow>
             (case updateForecastUI U (forecast w) doc3 of
                Inl e \<Rightarrow> doc3
              | Inr doc4 \<Rightarrow> doc4))"

definition updateWeatherUI ::
  "unicode \<Rightarrow> weather_data option \<Rightarrow> jsstring option \<Rightarrow> location \<Rightarrow> page \<Rightarrow> page" where
  "updateWeatherUI U weatherData message location doc =
     (let doc1 = update_header location doc
      in case message of
           Some (c # cs) \<Rightarrow> show_message (c # cs) doc1
         | _ \<Rightarrow>
             (case weatherData of
                None \<Rightarrow> doc1
              | Some w \<Rightarrow> show_data U w doc1))"

section \<open>Fetching the weather\<close>

text \<open>
  The network is a parameter: what each request settles to (\<open>Inl\<close>: the promise of
  \<open>fetch\<close> is rejected), and for a response its \<open>ok\<close> flag and what \<open>json()\<close>
  settles to (\<open>Inl\<close>: the body is not JSON; a JSON body may be \<open>null\<close>). Requests
  are keyed by what the code puts into the URL.
\<close>

record 'a response =
  ok :: bool
  json :: "error + 'a field"

datatype point_properties =
  PointProperties (observationStations: "jsstring field") (forecast_url: "jsstring field")

datatype point_data = Point (point_properties: "point_properties field")

datatype station_properties = StationProperties (station_id: "jsstring field")

datatype station_feature = Station (station_properties: "station_properties field")

datatype stations_data = Stations (station_features: "station_feature list field")

record network =
  fetch_point :: "jsnum \<Rightarrow> jsnum \<Rightarrow> error + point_data response"
  fetch_stations :: "jsstring \<Rightarrow> error + stations_data response"
  fetch_observation :: "jsstring \<Rightarrow> error + observation_data response"
  fetch_forecast :: "jsstring \<Rightarrow> error + forecast_data response"
  fetch_alerts :: "jsnum \<Rightarrow> jsnum \<Rightarrow> error + alerts_data response"

definition and_then :: "error + 'a \<Rightarrow> ('a \<Rightarrow> error + 'b) \<Rightarrow> error + 'b" where
  "and_then p f = (case p of Inl e \<Rightarrow> Inl e | Inr x \<Rightarrow> f x)"

text \<open>\<open>stations.features[0].properties.id + '/observations/latest'\<close>\<close>

definition latest_observation_url :: "stations_data field \<Rightarrow> error + jsstring" where
  "latest_observation_url stations =
     (case stations of
        Val (Stations (Val (first # others))) \<Rightarrow>
          (case station_properties first of
             Val props \<Rightarrow> Inr (interp (station_id props) @ str ''/observations/latest'')
           | _ \<Rightarrow> Inl TypeError)
      | _ \<Rightarrow> Inl TypeError)"

text \<open>
  \<open>Promise.all\<close> of three promises: fulfilled when all three are, rejected as soon as
  one is. Which rejection it reports depends on the timing; the model reports the
  leftmost, and the \<open>catch\<close> block of the caller does not look at it.
\<close>

definition Promise_all :: "error + 'a \<Rightarrow> error + 'b \<Rightarrow> error + 'c \<Rightarrow> error + 'a \<times> 'b \<times> 'c" where
  "Promise_all p1 p2 p3 =
     and_then p1 (\<lambda>x. and_then p2 (\<lambda>y. and_then p3 (\<lambda>z. Inr (x, y, z))))"

text \<open>
  The three promises of the first \<open>Promise.all\<close>: the response with the latest
  observation of the first station (reached through the list of stations), the response
  with the forecast, the response with the active alerts.
\<close>

definition currentResponse :: "network \<Rightarrow> point_properties \<Rightarrow> error + observation_data response" where
  "currentResponse net props =
     and_then (fetch_stations net (interp (observationStations props))) (\<lambda>r.
       and_then (json r) (\<lambda>stations.
         and_then (latest_observation_url stations) (fetch_observation net)))"

definition forecastResponse :: "network \<Rightarrow> point_properties \<Rightarrow> error + forecast_data response" where
  "forecastResponse net props = fetch_forecast net (interp (forecast_url props))"

definition alertsResponse :: "network \<Rightarrow> jsnum \<Rightarrow> jsnum \<Rightarrow> error + alerts_data response" where
  "alertsResponse net la lo = fetch_alerts net la lo"

text \<open>
  The requests of \<open>fetchWeatherData\<close>, from the first \<open>await\<close> to the call of
  \<open>updateWeatherUI\<close> with the data: the point, then the three branches, then the
  bodies of the three responses.
\<close>

definition request_weather :: "network \<Rightarrow> jsnum \<Rightarrow> jsnum \<Rightarrow> error + weather_data" where
  "request_weather net la lo =
     and_then (fetch_point net la lo) (\<lambda>pointResponse.
       if \<not> ok pointResponse then Inl (Error (str ''Failed to get NWS point data''))
       else and_then (json pointResponse) (\<lambda>pointData.
         case pointData of
           Val (Point (Val props)) \<Rightarrow>
             and_then
               (Promise_all (currentResponse net props) (forecastResponse net props)
                  (alertsResponse net la lo))
               (\<lambda>(cr, fr, ar).
                  and_then (Promise_all (json cr) (json fr) (json ar))
                    (\<lambda>(currentData, forecastData, alertsData).
                       Inr \<lparr> current = currentData, forecast = forecastData,
                               alerts = alertsData \<rparr>))
         | _ \<Rightarrow> Inl TypeError))"

definition loading_message :: jsstring where
  "loading_message = str ''Loading weather data...''"

definition error_message :: jsstring where
  "error_message = str ''Error loading weather data. Please try again.''"

text \<open>
  \<open>fetchWeatherData\<close> runs in two steps of the event loop: up to its first
  \<open>await\<close> it shows the loading state; when its requests have settled it shows the
  data, or the error message from the \<open>catch\<close> block.
\<close>

definition fetchWeatherData_start :: "unicode \<Rightarrow> location \<Rightarrow> page \<Rightarrow> page" where
  "fetchWeatherData_start U location doc = updateWeatherUI U None (Some loading_message) location doc"

definition fetchWeatherData_settle ::
  "unicode \<Rightarrow> error + weather_data \<Rightarrow> location \<Rightarrow> page \<Rightarrow> page" where
  "fetchWeatherData_settle U settled location doc =
     (case settled of
        Inr w \<Rightarrow> updateWeatherUI U (Some w) None location doc
      | Inl e \<Rightarrow> updateWeatherUI U None (Some error_message) location doc)"

text \<open>A fetch that nothing interleaves with.\<close>

definition fetchWeatherData :: "unicode \<Rightarrow> network \<Rightarrow> jsnum \<Rightarrow> jsnum \<Rightarrow> location \<Rightarrow> page \<Rightarrow> page" where
  "fetchWeatherData U net la lo location doc =
     fetchWeatherData_settle U (request_weather net la lo) location
       (fetchWeatherData_start U location doc)"

text \<open>
  The application: the widget, the page, and the fetches in flight (each one holds the
  location it was started for; nothing else identifies it).
\<close>

record app =
  widget :: LocationSearch
  document :: page
  in_flight :: "location list"

text \<open>
  \<open>selectLocation\<close> up to the first \<open>await\<close> of the fetch it starts.
\<close>

definition selectLocation :: "unicode \<Rightarrow> location \<Rightarrow> app \<Rightarrow> app" where
  "selectLocation U location a =
     a\<lparr>widget := hideSuggestions ((widget a)\<lparr>searchInput_value := displayText location\<rparr>),
       document := fetchWeatherData_start U location (document a),
       in_flight := in_flight a @ [location]\<rparr>"

text \<open>
  The events of a session: the user selects a location, or the requests of a fetch in
  flight settle (in any order among the fetches). A settling fetch continues after its
  \<open>await\<close>.
\<close>

datatype event = Selected location | Settled location

definition step :: "unicode \<Rightarrow> network \<Rightarrow> app \<Rightarrow> event \<Rightarrow> app" where
  "step U net a ev =
     (case ev of
        Selected location \<Rightarrow> selectLocation U location a
      | Settled location \<Rightarrow>
          (if location \<in> set (in_flight a)
           then a\<lparr>document :=
                    fetchWeatherData_settle U (request_weather net (lat location) (lng location))
                      location (document a),
                  in_flight := remove1 location (in_flight a)\<rparr>
           else a))"

definition run :: "unicode \<Rightarrow> network \<Rightarrow> app \<Rightarrow> event list \<Rightarrow> app" where
  "run U net a evs = foldl (step U net) a evs"

section \<open>Example inputs\<close>

text \<open>Data on which the functions are evaluated in the examples below.\<close>

definition box0 :: suggestions_box where
  "box0 = \<lparr> hidden = True, innerHTML = [] \<rparr>"

definition santa_ana :: script_location where
  "santa_ana =
     \<lparr> s_zip = str ''92701'', s_city = str ''Santa Ana'', s_state_id = str ''CA'',
       s_lat = str ''33.74'', s_lng = str ''-117.86'',
       s_display = str ''Santa Ana, CA 92701'', s_search = str ''92701 Santa Ana CA'' \<rparr>"

definition boston_row :: script_location where
  "boston_row =
     \<lparr> s_zip = str ''02101'', s_city = str ''Boston'', s_state_id = str ''MA'',
       s_lat = str ''42.36'', s_lng = str ''-71.06'',
       s_display = str ''Boston, MA 02101'', s_search = str ''02101 Boston MA'' \<rparr>"

text \<open>A parsed row whose latitude is not a number.\<close>

definition unparsable_row :: csv_row where
  "unparsable_row =
     \<lparr> row_zip = Some (str ''02101''), row_city = Some (str ''Boston''),
       row_state_id = Some (str ''MA''), row_lat = Some (str ''north''),
       row_lng = Some (str ''-71.06'') \<rparr>"

definition boston :: location where
  "boston =
     \<lparr> zip_code = str ''02101'', lat = Fin (4236 / 100), lng = Fin (- (7106 / 100)),
       city = str ''Boston'', state = str ''MA'', displayText = str ''Boston, MA 02101'' \<rparr>"

definition denver :: location where
  "denver =
     \<lparr> zip_code = str ''80202'', lat = Fin (3975 / 100), lng = Fin (- (10499 / 100)),
       city = str ''Denver'', state = str ''CO'', displayText = str ''Denver, CO 80202'' \<rparr>"

text \<open>The widget as the constructor leaves it, and an application with two locations.\<close>

definition widget0 :: LocationSearch where
  "widget0 =
     \<lparr> locations = [], currentSuggestions = [], selectedIndex = - 1,
       searchInput_value = [], suggestionsContainer_hidden = True,
       suggestionsContainer_items = [] \<rparr>"

definition page0 :: page where
  "page0 =
     \<lparr> locationHeader = current_conditions, tempElement = [], conditionElement = [],
       detailsContainer = Details [] [] [], alertContent = NoActiveAlerts,
       forecastContainer = [] \<rparr>"

definition app0 :: app where
  "app0 =
     \<lparr> widget = widget0\<lparr>locations := [boston, denver]\<rparr>, document = page0, in_flight = [] \<rparr>"

text \<open>
  An observation with the given temperature and description, and a network on which
  every request succeeds: Boston has 20 degrees Celsius, any other place 30.
\<close>

definition properties_of :: "rat \<Rightarrow> jsstring \<Rightarrow> observation_properties" where
  "properties_of c d =
     \<lparr> temperature = Val (Quantity (Val (Fin c))),
       textDescription = Val d,
       relativeHumidity = Val (Quantity (Val (Fin 50))),
       windSpeed = Val (Quantity (Val (Fin 5))),
       windDirection = Val (Quantity (Val (Fin (405 / 2)))) \<rparr>"

definition observation_of :: "rat \<Rightarrow> jsstring \<Rightarrow> observation_data" where
  "observation_of c d = Observation (Val (properties_of c d))"

definition sunny_period :: period where
  "sunny_period =
     \<lparr> name = Val (str ''Tuesday''), shortForecast = Val (str ''Sunny''),
       period_temperature = Val (Fin 74) \<rparr>"

definition flood_alert :: alert_feature where
  "flood_alert =
     Alert (Val \<lparr> event = Val (str ''Flood Warning''),
                  headline = Val (str ''Flood Warning until 6 PM'') \<rparr>)"

definition heat_alert :: alert_feature where
  "heat_alert =
     Alert (Val \<lparr> event = Val (str ''Heat Advisory''),
                  headline = Val (str ''Heat Advisory until 8 PM'') \<rparr>)"

definition demo_net :: network where
  "demo_net =
     \<lparr> fetch_point = (\<lambda>la lo.
         Inr \<lparr> ok = True,
               json = Inr (Val (Point (Val (PointProperties
                        (Val (if la = lat boston then str ''stations/BOS'' else str ''stations/X''))
                        (Val (str ''forecast'')))))) \<rparr>),
       fetch_stations = (\<lambda>url.
         Inr \<lparr> ok = True,
               json = Inr (Val (Stations (Val [Station (Val (StationProperties (Val url)))]))) \<rparr>),
       fetch_observation = (\<lambda>url.
         Inr \<lparr> ok = True,
               json = Inr (Val (if url = str ''stations/BOS/observations/latest''
                                then observation_of 20 (str ''Sunny'')
                                else observation_of 30 (str ''Windy''))) \<rparr>),
       fetch_forecast = (\<lambda>url.
         Inr \<lparr> ok = True,
               json = Inr (Val (Forecast (Val (ForecastProperties (Val [sunny_period]))))) \<rparr>),
       fetch_alerts = (\<lambda>la lo.
         Inr \<lparr> ok = True, json = Inr (Val (Alerts (Val [flood_alert, heat_alert]))) \<rparr>) \<rparr>"

text \<open>What this network answers for Boston, and its answer to the first request.\<close>

definition boston_weather :: weather_data where
  "boston_weather =
     \<lparr> current = Val (observation_of 20 (str ''Sunny'')),
       forecast = Val (Forecast (Val (ForecastProperties (Val [sunny_period])))),
       alerts = Val (Alerts (Val [flood_alert, heat_alert])) \<rparr>"

definition boston_point :: point_properties where
  "boston_point = PointProperties (Val (str ''stations/BOS'')) (Val (str ''forecast''))"

definition boston_point_response :: "point_data response" where
  "boston_point_response = \<lparr> ok = True, json = Inr (Val (Point (Val boston_point))) \<rparr>"

text \<open>The same network with the request for the latest observation rejected.\<close>

definition no_observation_net :: network where
  "no_observation_net = demo_net\<lparr> fetch_observation := (\<lambda>url. Inl NetworkError) \<rparr>"

text \<open>
  An observation as the API sends it when the station reports nothing: no description,
  and quantities whose value is null.
\<close>

definition silent_observation :: weather_data where
  "silent_observation =
     \<lparr> current = Val (Observation (Val
         \<lparr> temperature = Val (Quantity Null),
           textDescription = Undefined,
           relativeHumidity = Val (Quantity Null),
           windSpeed = Val (Quantity Null),
           windDirection = Val (Quantity Null) \<rparr>)),
       forecast = Val (Forecast (Val (ForecastProperties (Val [])))),
       alerts = Val (Alerts (Val [])) \<rparr>"

text \<open>An observation without any of the five properties.\<close>

definition empty_properties :: observation_properties where
  "empty_properties =
     \<lparr> temperature = Undefined, textDescription = Undefined, relativeHumidity = Undefined,
       windSpeed = Undefined, windDirection = Null \<rparr>"

text \<open>
  Three files: a header and a complete row; the same with a second row of four fields
  whose latitude is \<open>Infinity\<close>; the same with a second row of two fields.
\<close>

definition csv_header :: jsstring where
  "csv_header = str ''zip,lat,lng,city,state_id''"

definition csv_boston :: jsstring where
  "csv_boston = str ''02101,42.36,-71.06,Boston,MA''"

definition csv_good :: jsstring where
  "csv_good = csv_header @ [10] @ csv_boston @ [10]"

definition csv_four_fields :: jsstring where
  "csv_four_fields = csv_header @ [10] @ csv_boston @ [10] @ str ''80202,Infinity,-104.99,Denver'' @ [10]"

text \<open>
  A file with a complete row, a row without latitude, a row whose latitude is a word,
  and a row of four fields; and the location loaded from the last.
\<close>

definition csv_no_latitude :: jsstring where
  "csv_no_latitude = str ''10001,,-74.00,New York,NY''"

definition csv_word_latitude :: jsstring where
  "csv_word_latitude = str ''60601,north,-87.62,Chicago,IL''"

definition csv_no_state :: jsstring where
  "csv_no_state = str ''80202,39.75,-104.99,Denver''"

definition csv_mixed :: jsstring where
  "csv_mixed =
     csv_header @ [10] @ csv_boston @ [10] @ csv_no_latitude @ [10] @ csv_word_latitude
     @ [10] @ csv_no_state @ [10]"

definition denver_unknown :: location where
  "denver_unknown =
     \<lparr> zip_code = str ''80202'', lat = Fin (3975 / 100), lng = Fin (- (10499 / 100)),
       city = str ''Denver'', state = str ''Unknown'',
       displayText = str ''Denver, Unknown 80202'' \<rparr>"

definition csv_two_fields :: jsstring where
  "csv_two_fields = csv_header @ [10] @ csv_boston @ [10] @ str ''80202,39.75'' @ [10]"


section \<open>Strings: slices and search\<close>




lemma startsWith_Nil: "startsWith s [] = True"
  by (simp add: startsWith_def)

lemma indexOf_from_append: "0 \<le> indexOf_from i (xs @ q) q"
proof (induction xs arbitrary: i)
  case Nil
  show ?case by (cases q) (simp_all add: startsWith_def)
next
  case (Cons x xs)
  then show ?case by simp
qed

lemma includes_str_append: "includes_str (xs @ q) q"
  using indexOf_from_append [of 0 xs q] by (simp add: includes_str_def indexOf_def)

lemma subseq_take_filter: "subseq (take n (filter P xs)) xs"
proof -
  have "subseq (take n (filter P xs)) (filter P xs)"
    by (rule prefix_imp_subseq) (rule take_is_prefix)
  then show ?thesis
    by (rule subseq_order.trans) (rule subseq_filter_left)
qed

section \<open>The suggestion script: highlighting\<close>


section \<open>What \<open>normalize\<close> deletes\<close>

lemma latin1_decomposition_small:
  assumes "map_of latin1_decomposition c = Some (b, m)"
  shows "b + 32 \<le> 879 \<and> m \<le> 879"
proof -
  from assms have "(c, b, m) \<in> set latin1_decomposition"
    by (rule map_of_SomeD)
  then show ?thesis
    by (auto simp: latin1_decomposition_def)
qed

lemma latin1_nfd_small:
  assumes "c \<le> 287" and "d \<in> set (latin1_nfd c)"
  shows "d \<le> 879"
  using assms
  by (auto simp: latin1_nfd_def split: option.splits if_splits dest: latin1_decomposition_small)

lemma latin1_lower_small: "c \<le> 255 \<Longrightarrow> latin1_lower c \<le> 287"
  by (simp add: latin1_lower_def)

text \<open>
  Lower-casing and decomposing a string of Basic Latin and Latin-1 characters gives
  letters and combining marks, none beyond U+036F: \<open>normalize\<close> deletes them all.
\<close>

lemma normalize_latin1:
  assumes "\<forall>c\<in>set s. c \<le> 255"
  shows "normalize latin1 s = []"
proof -
  have "d \<le> 879" if "d \<in> set (normalizeNFD latin1 (toLowerCase latin1 s))" for d
  proof -
    from that obtain c where "c \<in> set s" and "d \<in> set (latin1_nfd (latin1_lower c))"
      by (auto simp: latin1_def)
    with assms show ?thesis
      using latin1_nfd_small [OF latin1_lower_small] by blast
  qed
  then show ?thesis
    by (simp add: normalize_def filter_empty_conv)
qed

lemma highlightMatch_all_stripped:
  assumes "normalize U text = []" and "normalize U query = []"
  shows "highlightMatch U text query
         = span_open @ take (length query) text @ span_close @ drop (length query) text"
  using assms
  by (simp add: highlightMatch_def indexOf_def slice_def slice_from_def min_def)

text \<open>
  The example of the specification: the text of the code units 80, 101, 241, 97 (the
  third is the letter n with a tilde) with the query \<open>pena\<close>. The whole text is put
  into the span.
\<close>

lemma highlightMatch_Pena:
  "highlightMatch latin1 [80, 101, 241, 97] (str ''pena'')
     = span_open @ [80, 101, 241, 97] @ span_close"
proof -
  have "normalize latin1 [80, 101, 241, 97] = []" and "normalize latin1 (str ''pena'') = []"
    by (rule normalize_latin1, simp add: str_def)+
  then show ?thesis
    by (simp add: highlightMatch_all_stripped) (simp add: str_def)
qed

section \<open>Queries\<close>

text \<open>What the suggestion box lists after \<open>showSuggestions\<close>.\<close>

lemma showSuggestions_lists:
  "map item_location (innerHTML (showSuggestions U locs query box))
     = (if length query < 2 then [] else matches U locs query)"
  by (auto simp: showSuggestions_def comp_def)

lemma matches_all:
  "normalize U query = [] \<Longrightarrow> matches U locs query = take 15 locs"
  by (simp add: matches_def startsWith_Nil)

lemma normalize_blank_a: "normalize latin1 (str '' a'') = []"
  by (rule normalize_latin1) (simp add: str_def)

lemma normalize_zz: "normalize latin1 (str ''zz'') = []"
  by (rule normalize_latin1) (simp add: str_def)

text \<open>
  On a query of Basic Latin and Latin-1 characters the script lists the first 15
  locations of the dataset, whatever they are.
\<close>

lemma matches_latin1:
  assumes "\<forall>c\<in>set query. c \<le> 255"
  shows "matches latin1 locs query = take 15 locs"
  using assms by (simp add: matches_all normalize_latin1)

lemma trim_blank_a: "trim (str '' a'') = str ''a''"
  by (simp add: str_def trim_def isWhiteSpace_def)

text \<open>
  C8. For every query and every dataset, both implementations list at most a fixed
  number of locations, 15 for the script and 10 for the class (through \<open>handleInput\<close>
  and through \<open>showSuggestions\<close> itself), and the listed locations are a subsequence
  of the dataset: they keep the order they have there.
\<close>

theorem suggestions_capped_in_dataset_order:
  "length (map item_location (innerHTML (showSuggestions U locs query box))) \<le> 15
   \<and> subseq (map item_location (innerHTML (showSuggestions U locs query box))) locs
   \<and> length (currentSuggestions (handleInput U v this)) \<le> 10
   \<and> subseq (currentSuggestions (handleInput U v this)) (locations this)
   \<and> length (currentSuggestions (LocationSearch_showSuggestions U q this)) \<le> 10
   \<and> subseq (currentSuggestions (LocationSearch_showSuggestions U q this)) (locations this)"
proof -
  have "length (matches U locs query) \<le> 15" and "subseq (matches U locs query) locs"
    by (simp_all add: matches_def Let_def subseq_take_filter)
  moreover have "length (currentSuggestions (LocationSearch_showSuggestions U q this)) \<le> 10"
    by (simp add: Let_def hideSuggestions_def LocationSearch_showSuggestions_def
        renderSuggestions_def)
  moreover have "subseq (currentSuggestions (LocationSearch_showSuggestions U q this))
      (locations this)"
    by (simp add: Let_def hideSuggestions_def LocationSearch_showSuggestions_def
        renderSuggestions_def subseq_take_filter)
  moreover have "length (currentSuggestions (handleInput U v this)) \<le> 10"
    by (simp add: handleInput_def Let_def hideSuggestions_def
        LocationSearch_showSuggestions_def renderSuggestions_def)
  moreover have "subseq (currentSuggestions (handleInput U v this)) (locations this)"
    by (simp add: handleInput_def Let_def hideSuggestions_def
        LocationSearch_showSuggestions_def renderSuggestions_def subseq_take_filter)
  ultimately show ?thesis
    unfolding showSuggestions_lists by simp
qed

text \<open>
  C7, as the code has it. The class trims the input: an input whose trimmed length is
  less than 2 only hides the suggestions, which empties them, and the locations are not
  looked at. The script does not trim: it lists nothing when the input itself is shorter
  than 2 code units.
\<close>

theorem short_input_gives_no_suggestions:
  "(length (trim v) < 2 \<longrightarrow>
      handleInput U v this = hideSuggestions this
      \<and> currentSuggestions (handleInput U v this) = [])
   \<and> (length query < 2 \<longrightarrow>
      showSuggestions U locs query box = box\<lparr>hidden := True, innerHTML := []\<rparr>)"
  by (simp add: handleInput_def Let_def hideSuggestions_def showSuggestions_def)

theorem short_input_gives_no_suggestions_witness:
  "length (trim (str '' a'')) < 2 \<and> length (str ''a'') < 2
   \<and> handleInput latin1 (str '' a'') widget0 = hideSuggestions widget0
   \<and> currentSuggestions (handleInput latin1 (str '' a'') widget0) = []
   \<and> showSuggestions latin1 [santa_ana] (str ''a'') box0 = box0\<lparr>hidden := True, innerHTML := []\<rparr>"
proof -
  have h1: "length (trim (str '' a'')) < 2"
    by (simp add: trim_blank_a) (simp add: str_def)
  have h2: "length (str ''a'') < 2"
    by (simp add: str_def)
  show ?thesis
    using h1 h2
      short_input_gives_no_suggestions [of "str '' a''" latin1 widget0 "str ''a''" "[santa_ana]" box0]
    by blast
qed

text \<open>
  C7 as stated fails on the script: the input \<open>" a"\<close> has trimmed length 1, and the
  script matches it against the dataset and lists Santa Ana.
\<close>

theorem untrimmed_short_query_counterexample:
  "length (trim (str '' a'')) < 2
   \<and> map item_location (innerHTML (showSuggestions latin1 [santa_ana] (str '' a'') box0))
       = [santa_ana]"
  unfolding showSuggestions_lists trim_blank_a matches_all [OF normalize_blank_a]
  by (simp add: str_def)

text \<open>
  C3 at its failing input: the query \<open>zz\<close> and a dataset holding Boston, MA 02101.
  No field of the record starts with or contains \<open>zz\<close> in any case, yet the script
  lists the record: \<open>normalize\<close> deletes every code unit up to U+036F, so the query and
  all three fields are normalized to the empty string.
\<close>

theorem query_lists_unrelated_record:
  "normalize latin1 (str ''zz'') = []
   \<and> normalize latin1 (s_city boston_row) = []
   \<and> map item_location (innerHTML (showSuggestions latin1 [boston_row] (str ''zz'') box0))
       = [boston_row]"
proof -
  have "normalize latin1 (s_city boston_row) = []"
    by (rule normalize_latin1) (simp add: boston_row_def str_def)
  moreover have "map item_location (innerHTML (showSuggestions latin1 [boston_row] (str ''zz'') box0))
       = [boston_row]"
    unfolding showSuggestions_lists matches_all [OF normalize_zz] by (simp add: str_def)
  ultimately show ?thesis
    by (simp add: normalize_zz)
qed

section \<open>Writing the weather to the page\<close>

lemma updateAlertsUI_keeps:
  assumes "updateAlertsUI a doc = Inr doc'"
  shows "tempElement doc' = tempElement doc"
    and "conditionElement doc' = conditionElement doc"
    and "detailsContainer doc' = detailsContainer doc"
    and "forecastContainer doc' = forecastContainer doc"
    and "locationHeader doc' = locationHeader doc"
  using assms
  by (auto simp: updateAlertsUI_def split: field.splits alerts_data.splits list.splits)

lemma updateForecastUI_keeps:
  assumes "updateForecastUI U f doc = Inr doc'"
  shows "tempElement doc' = tempElement doc"
    and "conditionElement doc' = conditionElement doc"
    and "detailsContainer doc' = detailsContainer doc"
    and "alertContent doc' = alertContent doc"
    and "locationHeader doc' = locationHeader doc"
  using assms
  by (auto simp: updateForecastUI_def
      split: field.splits forecast_data.splits forecast_properties.splits sum.splits)

lemma update_current_keeps:
  "alertContent (update_current c doc) = alertContent doc"
  "forecastContainer (update_current c doc) = forecastContainer doc"
  "locationHeader (update_current c doc) = locationHeader doc"
  by (auto simp: update_current_def update_details_def update_condition_def
      update_temperature_def Let_def split: field.splits observation_data.splits)

lemma update_header_keeps:
  "tempElement (update_header l doc) = tempElement doc"
  "conditionElement (update_header l doc) = conditionElement doc"
  "detailsContainer (update_header l doc) = detailsContainer doc"
  "alertContent (update_header l doc) = alertContent doc"
  "forecastContainer (update_header l doc) = forecastContainer doc"
  by (simp_all add: update_header_def)

lemma show_message_fields:
  "tempElement (show_message m doc) = [S ([45, 45] @ degree_F)]"
  "conditionElement (show_message m doc) = [S m]"
  "detailsContainer (show_message m doc) = detailsContainer doc"
  "alertContent (show_message m doc) = alertContent doc"
  "forecastContainer (show_message m doc) = forecastContainer doc"
  "locationHeader (show_message m doc) = locationHeader doc"
  by (simp_all add: show_message_def)

text \<open>
  The alerts and the forecast are written after the current conditions and leave them
  alone, whether or not they raise.
\<close>

lemma show_data_current:
  "tempElement (show_data U w doc) = tempElement (update_current (current w) doc)"
  "conditionElement (show_data U w doc) = conditionElement (update_current (current w) doc)"
  "detailsContainer (show_data U w doc) = detailsContainer (update_current (current w) doc)"
  "locationHeader (show_data U w doc) = locationHeader doc"
proof -
  let ?d2 = "update_current (current w) doc"
  have "tempElement (show_data U w doc) = tempElement ?d2
      \<and> conditionElement (show_data U w doc) = conditionElement ?d2
      \<and> detailsContainer (show_data U w doc) = detailsContainer ?d2
      \<and> locationHeader (show_data U w doc) = locationHeader doc"
  proof (cases "updateAlertsUI (alerts w) ?d2")
    case (Inl e)
    then show ?thesis
      by (simp add: show_data_def update_current_keeps)
  next
    case a: (Inr d3)
    show ?thesis
    proof (cases "updateForecastUI U (forecast w) d3")
      case (Inl e)
      with a show ?thesis
        by (simp add: show_data_def updateAlertsUI_keeps [OF a] update_current_keeps)
    next
      case f: (Inr d4)
      with a show ?thesis
        by (simp add: show_data_def updateAlertsUI_keeps [OF a] updateForecastUI_keeps [OF f]
            update_current_keeps)
    qed
  qed
  then show "tempElement (show_data U w doc) = tempElement ?d2"
    and "conditionElement (show_data U w doc) = conditionElement ?d2"
    and "detailsContainer (show_data U w doc) = detailsContainer ?d2"
    and "locationHeader (show_data U w doc) = locationHeader doc"
    by simp_all
qed

lemma update_current_parts:
  "tempElement (update_current (Val (Observation (Val p))) doc)
     = tempElement (update_temperature p doc)"
  "conditionElement (update_current (Val (Observation (Val p))) doc)
     = conditionElement (update_condition p doc)"
  "detailsContainer (update_current (Val (Observation (Val p))) doc)
     = detailsContainer (update_details p doc)"
  by (auto simp: update_current_def update_details_def update_condition_def
      update_temperature_def Let_def split: field.splits)

text \<open>
  C6, as the code has it. With the properties of the observation present: a humidity or
  a wind speed that is absent or null is shown as \<open>N/A\<close>; a wind direction that is
  absent or null is shown as the empty string; a temperature or a description that is
  absent or null leaves its element as it was (after the loading state, the temperature
  element holds \<open>--\<degree>F\<close>). Nothing is said here of a quantity that is present
  with a value that is null.
\<close>

theorem missing_fields_rendering:
  assumes "current w = Val (Observation (Val p))"
  shows "(absent (relativeHumidity p) \<longrightarrow>
            humidity_text (detailsContainer (updateWeatherUI U (Some w) None location doc))
              = [S (str ''N/A'')])
       \<and> (absent (windSpeed p) \<longrightarrow>
            windSpeed_text (detailsContainer (updateWeatherUI U (Some w) None location doc))
              = [S (str ''N/A'')])
       \<and> (absent (windDirection p) \<longrightarrow>
            windDirection_text (detailsContainer (updateWeatherUI U (Some w) None location doc))
              = [])
       \<and> (absent (temperature p) \<longrightarrow>
            tempElement (updateWeatherUI U (Some w) None location doc) = tempElement doc)
       \<and> (absent (textDescription p) \<longrightarrow>
            conditionElement (updateWeatherUI U (Some w) None location doc)
              = conditionElement doc)"
proof -
  have "detailsContainer (updateWeatherUI U (Some w) None location doc)
         = detailsContainer (update_details p (update_header location doc))"
    by (simp add: updateWeatherUI_def show_data_current assms update_current_parts)
  moreover have "tempElement (updateWeatherUI U (Some w) None location doc)
         = tempElement (update_temperature p (update_header location doc))"
    by (simp add: updateWeatherUI_def show_data_current assms update_current_parts)
  moreover have "conditionElement (updateWeatherUI U (Some w) None location doc)
         = conditionElement (update_condition p (update_header location doc))"
    by (simp add: updateWeatherUI_def show_data_current assms update_current_parts)
  ultimately show ?thesis
    by (auto simp: absent_def update_details_def update_temperature_def update_condition_def
        update_header_keeps split: field.splits)
qed

theorem missing_fields_rendering_witness:
  "current (silent_observation\<lparr>current := Val (Observation (Val empty_properties))\<rparr>)
     = Val (Observation (Val empty_properties))
   \<and> absent (relativeHumidity empty_properties) \<and> absent (windSpeed empty_properties)
   \<and> absent (windDirection empty_properties) \<and> absent (temperature empty_properties)
   \<and> absent (textDescription empty_properties)
   \<and> detailsContainer
        (updateWeatherUI latin1
           (Some (silent_observation\<lparr>current := Val (Observation (Val empty_properties))\<rparr>))
           None boston page0)
       = Details [S (str ''N/A'')] [S (str ''N/A'')] []
   \<and> tempElement
        (updateWeatherUI latin1
           (Some (silent_observation\<lparr>current := Val (Observation (Val empty_properties))\<rparr>))
           None boston page0)
       = tempElement page0"
proof -
  have h: "current (silent_observation\<lparr>current := Val (Observation (Val empty_properties))\<rparr>)
     = Val (Observation (Val empty_properties))"
    by simp
  show ?thesis
    using missing_fields_rendering [OF h, of latin1 boston page0]
    by (simp add: empty_properties_def absent_def details_markup.expand)
qed

text \<open>
  C6 as stated fails on an observation without a description whose quantities have the
  value null, shown after the loading state: the page keeps the loading message as the
  description and shows a humidity of 0 %, a wind of 0 mph and the direction \<open>N\<close>,
  none of them a placeholder.
\<close>

theorem null_values_counterexample:
  "fetchWeatherData_settle latin1 (Inr silent_observation) boston
     (fetchWeatherData_start latin1 boston page0)
   = page0\<lparr> locationHeader := str ''Boston, MA - Current Conditions'',
            tempElement := [S ([45, 45] @ degree_F)],
            conditionElement := [S loading_message],
            detailsContainer :=
              Details [N (Fin 0), S (str ''%'')] [N (Fin 0), S (str '' mph'')] (str ''N''),
            alertContent := NoActiveAlerts \<rparr>"
  by code_simp

text \<open>
  C10. When the list of features of the alerts is not empty and its first feature has
  its properties, the alert block shows the event and the headline of that first
  feature; the features after it do not occur in what is shown.
\<close>

theorem first_alert_rendered:
  assumes "alerts w = Val (Alerts (Val (first # others)))"
    and "alert_properties first = Val a"
  shows "alertContent (updateWeatherUI U (Some w) None location doc)
         = ActiveAlert (interp (event a)) (interp (headline a))"
proof -
  have "updateAlertsUI (alerts w) d
          = Inr (d\<lparr>alertContent := ActiveAlert (interp (event a)) (interp (headline a))\<rparr>)" for d
    using assms by (simp add: updateAlertsUI_def)
  then have "alertContent (show_data U w d)
          = ActiveAlert (interp (event a)) (interp (headline a))" for d
    using updateForecastUI_keeps(4)
    by (fastforce simp: show_data_def Let_def split: sum.splits)
  then show ?thesis
    by (simp add: updateWeatherUI_def)
qed

theorem first_alert_rendered_witness:
  "alerts boston_weather = Val (Alerts (Val (flood_alert # [heat_alert])))
   \<and> alert_properties flood_alert
       = Val \<lparr> event = Val (str ''Flood Warning''), headline = Val (str ''Flood Warning until 6 PM'') \<rparr>
   \<and> alertContent (updateWeatherUI latin1 (Some boston_weather) None boston page0)
       = ActiveAlert (str ''Flood Warning'') (str ''Flood Warning until 6 PM'')"
proof -
  have h1: "alerts boston_weather = Val (Alerts (Val (flood_alert # [heat_alert])))"
    by (simp add: boston_weather_def)
  have h2: "alert_properties flood_alert
       = Val \<lparr> event = Val (str ''Flood Warning''), headline = Val (str ''Flood Warning until 6 PM'') \<rparr>"
    by (simp add: flood_alert_def)
  show ?thesis
    using h1 h2 first_alert_rendered [OF h1 h2, of latin1 boston page0]
    by (simp add: interp_def)
qed

section \<open>Fetching: one rejected branch\<close>

lemma isl_and_then: "isl p \<Longrightarrow> isl (and_then p f)"
  by (cases p) (simp_all add: and_then_def)

lemma isl_Promise_all:
  "isl p1 \<or> isl p2 \<or> isl p3 \<Longrightarrow> isl (Promise_all p1 p2 p3)"
  by (cases p1; cases p2; cases p3) (simp_all add: Promise_all_def and_then_def)

lemma Promise_all_Inr:
  "Promise_all p1 p2 p3 = Inr (x, y, z) \<longleftrightarrow> p1 = Inr x \<and> p2 = Inr y \<and> p3 = Inr z"
  by (cases p1; cases p2; cases p3) (auto simp: Promise_all_def and_then_def)

text \<open>
  When the point has been resolved, a branch that is rejected, at its request or when
  its body is read, rejects the whole chain of requests.
\<close>

lemma request_weather_branch_failure:
  assumes pt: "fetch_point net la lo = Inr r" "ok r" "json r = Inr (Val (Point (Val props)))"
    and br: "isl (and_then (currentResponse net props) json)
           \<or> isl (and_then (forecastResponse net props) json)
           \<or> isl (and_then (alertsResponse net la lo) json)"
  shows "isl (request_weather net la lo)"
proof -
  let ?P = "Promise_all (currentResponse net props) (forecastResponse net props)
              (alertsResponse net la lo)"
  have rw: "request_weather net la lo =
      and_then ?P (\<lambda>(cr, fr, ar).
        and_then (Promise_all (json cr) (json fr) (json ar))
          (\<lambda>(currentData, forecastData, alertsData).
             Inr \<lparr> current = currentData, forecast = forecastData, alerts = alertsData \<rparr>))"
    using pt by (simp add: request_weather_def and_then_def)
  show ?thesis
  proof (cases ?P)
    case (Inl e)
    then show ?thesis
      by (simp add: rw and_then_def)
  next
    case (Inr t)
    obtain cr fr ar where t: "t = (cr, fr, ar)"
      by (cases t)
    from Inr t have "currentResponse net props = Inr cr"
      and "forecastResponse net props = Inr fr"
      and "alertsResponse net la lo = Inr ar"
      by (simp_all add: Promise_all_Inr)
    with br have "isl (json cr) \<or> isl (json fr) \<or> isl (json ar)"
      by (simp add: and_then_def)
    then have "isl (Promise_all (json cr) (json fr) (json ar))"
      by (rule isl_Promise_all)
    then have "isl (and_then (Promise_all (json cr) (json fr) (json ar))
          (\<lambda>(currentData, forecastData, alertsData).
             Inr \<lparr> current = currentData, forecast = forecastData, alerts = alertsData \<rparr>))"
      by (rule isl_and_then)
    then show ?thesis
      using Inr t by (simp add: rw and_then_def)
  qed
qed

lemma settle_failure:
  "isl settled \<Longrightarrow>
     fetchWeatherData_settle U settled location doc
       = show_message error_message (update_header location doc)"
  by (cases settled)
    (simp_all add: fetchWeatherData_settle_def updateWeatherUI_def error_message_def str_def)

lemma start_page:
  "fetchWeatherData_start U location doc
     = show_message loading_message (update_header location doc)"
  by (simp add: fetchWeatherData_start_def updateWeatherUI_def loading_message_def str_def)

text \<open>
  C2, as the code has it. When the point metadata has been resolved and one of the three
  branches is rejected (at one of its requests or when its body is read), the whole
  fetch fails: the page shows \<open>--\<degree>F\<close> and the error message, and the details, the
  alerts and the forecast stay as they were, whatever the other branches returned.
\<close>

theorem branch_failure_fails_whole_fetch:
  assumes "fetch_point net la lo = Inr r" and "ok r"
    and "json r = Inr (Val (Point (Val props)))"
    and "isl (and_then (currentResponse net props) json)
           \<or> isl (and_then (forecastResponse net props) json)
           \<or> isl (and_then (alertsResponse net la lo) json)"
  shows "isl (request_weather net la lo)
       \<and> conditionElement (fetchWeatherData U net la lo location doc) = [S error_message]
       \<and> tempElement (fetchWeatherData U net la lo location doc) = [S ([45, 45] @ degree_F)]
       \<and> detailsContainer (fetchWeatherData U net la lo location doc) = detailsContainer doc
       \<and> alertContent (fetchWeatherData U net la lo location doc) = alertContent doc
       \<and> forecastContainer (fetchWeatherData U net la lo location doc) = forecastContainer doc"
proof -
  have "isl (request_weather net la lo)"
    using assms by (rule request_weather_branch_failure)
  then show ?thesis
    by (simp add: fetchWeatherData_def settle_failure start_page show_message_fields
        update_header_keeps)
qed

theorem branch_failure_fails_whole_fetch_witness:
  "fetch_point no_observation_net (lat boston) (lng boston) = Inr boston_point_response
   \<and> ok boston_point_response
   \<and> json boston_point_response = Inr (Val (Point (Val boston_point)))
   \<and> isl (and_then (currentResponse no_observation_net boston_point) json)
   \<and> isl (request_weather no_observation_net (lat boston) (lng boston))
   \<and> conditionElement
        (fetchWeatherData latin1 no_observation_net (lat boston) (lng boston) boston page0)
       = [S error_message]
   \<and> forecastContainer
        (fetchWeatherData latin1 no_observation_net (lat boston) (lng boston) boston page0)
       = []"
proof -
  have h1: "fetch_point no_observation_net (lat boston) (lng boston) = Inr boston_point_response"
    by (simp add: no_observation_net_def demo_net_def boston_point_response_def
        boston_point_def)
  have h2: "ok boston_point_response"
    by (simp add: boston_point_response_def)
  have h3: "json boston_point_response = Inr (Val (Point (Val boston_point)))"
    by (simp add: boston_point_response_def)
  have h4: "isl (and_then (currentResponse no_observation_net boston_point) json)"
    by (simp add: currentResponse_def no_observation_net_def demo_net_def and_then_def
        latest_observation_url_def)
  then have h4': "isl (and_then (currentResponse no_observation_net boston_point) json)
           \<or> isl (and_then (forecastResponse no_observation_net boston_point) json)
           \<or> isl (and_then (alertsResponse no_observation_net (lat boston) (lng boston)) json)"
    by simp
  show ?thesis
    using h1 h2 h3 h4
      branch_failure_fails_whole_fetch [OF h1 h2 h3 h4', of latin1 boston page0]
    by (simp add: page0_def)
qed

text \<open>
  C2 as stated fails when only the request for the latest observation is rejected, the
  forecast and the alerts being answered: the page shows the error message, and neither
  the forecast nor the alerts that were received.
\<close>

theorem partial_failure_counterexample:
  "fetch_observation no_observation_net (str ''stations/BOS/observations/latest'')
     = Inl NetworkError
   \<and> \<not> isl (and_then (forecastResponse no_observation_net boston_point) json)
   \<and> \<not> isl (and_then (alertsResponse no_observation_net (lat boston) (lng boston)) json)
   \<and> fetchWeatherData latin1 no_observation_net (lat boston) (lng boston) boston page0
     = page0\<lparr> locationHeader := str ''Boston, MA - Current Conditions'',
              tempElement := [S ([45, 45] @ degree_F)],
              conditionElement := [S error_message] \<rparr>"
  by code_simp

section \<open>Fetching: two selections\<close>

lemma update_header_sets:
  "includes_str (locationHeader doc) current_conditions \<Longrightarrow>
   locationHeader (update_header l doc)
     = city l @ str '', '' @ state l @ str '' - '' @ current_conditions"
  by (simp add: update_header_def)

lemma update_header_includes:
  "includes_str (locationHeader doc) current_conditions \<Longrightarrow>
   includes_str (locationHeader (update_header l doc)) current_conditions"
  using includes_str_append [of "city l @ str '', '' @ state l @ str '' - ''" current_conditions]
  by (simp add: update_header_def)

lemma updateWeatherUI_header:
  "locationHeader (updateWeatherUI U wd m l doc) = locationHeader (update_header l doc)"
  by (simp add: updateWeatherUI_def Let_def show_data_current show_message_fields
      split: option.splits list.splits)

lemma settle_header:
  "locationHeader (fetchWeatherData_settle U settled l doc)
     = locationHeader (update_header l doc)"
  by (cases settled) (simp_all add: fetchWeatherData_settle_def updateWeatherUI_header)

lemma run_snoc: "run U net a (xs @ [ev]) = step U net (run U net a xs) ev"
  by (simp add: run_def)

lemma step_Settled_widget: "widget (step U net a (Settled X)) = widget a"
  by (simp add: step_def)

text \<open>Settlements leave the widget, and so the search box, as it is.\<close>

lemma run_settlements_widget:
  assumes "\<forall>X. Selected X \<notin> set evs"
  shows "widget (run U net a evs) = widget a"
  using assms
proof (induction evs arbitrary: a)
  case Nil
  show ?case by (simp add: run_def)
next
  case (Cons ev evs)
  from Cons.prems obtain X where ev: "ev = Settled X"
    by (cases ev) auto
  have "run U net a (ev # evs) = run U net (step U net a ev) evs"
    by (simp add: run_def)
  with Cons ev show ?case
    by (simp add: step_Settled_widget)
qed

text \<open>A fetch stays in flight until it settles itself.\<close>

lemma step_keeps_in_flight:
  assumes "A \<in> set (in_flight a)" and "ev \<noteq> Settled A"
  shows "A \<in> set (in_flight (step U net a ev))"
proof (cases ev)
  case (Selected X)
  with assms show ?thesis
    by (simp add: step_def selectLocation_def)
next
  case (Settled X)
  with assms have "X \<noteq> A"
    by simp
  with assms Settled show ?thesis
    by (simp add: step_def)
qed

lemma run_keeps_in_flight:
  assumes "A \<in> set (in_flight a)" and "Settled A \<notin> set evs"
  shows "A \<in> set (in_flight (run U net a evs))"
  using assms
proof (induction evs arbitrary: a)
  case Nil
  then show ?case by (simp add: run_def)
next
  case (Cons ev evs)
  have "run U net a (ev # evs) = run U net (step U net a ev) evs"
    by (simp add: run_def)
  moreover from Cons.prems have "A \<in> set (in_flight (step U net a ev))"
    by (intro step_keeps_in_flight) auto
  ultimately show ?case
    using Cons by simp
qed

text \<open>A header that contains \<open>Current Conditions\<close> goes on containing it.\<close>

lemma step_header_includes:
  assumes "includes_str (locationHeader (document a)) current_conditions"
  shows "includes_str (locationHeader (document (step U net a ev))) current_conditions"
proof (cases ev)
  case (Selected X)
  with assms show ?thesis
    by (simp add: step_def selectLocation_def start_page show_message_fields
        update_header_includes)
next
  case (Settled X)
  with assms show ?thesis
    by (simp add: step_def settle_header update_header_includes)
qed

lemma run_header_includes:
  assumes "includes_str (locationHeader (document a)) current_conditions"
  shows "includes_str (locationHeader (document (run U net a evs))) current_conditions"
  using assms
proof (induction evs arbitrary: a)
  case Nil
  then show ?case by (simp add: run_def)
next
  case (Cons ev evs)
  have "run U net a (ev # evs) = run U net (step U net a ev) evs"
    by (simp add: run_def)
  with Cons step_header_includes show ?case
    by simp
qed

text \<open>What a fetch that succeeded writes into the temperature and the description.\<close>

lemma settle_result_success:
  assumes "current w = Val (Observation (Val p))"
  shows "temperature p = Val (Quantity (Val n)) \<and> n \<noteq> NaN \<and> n \<noteq> Fin 0 \<longrightarrow>
           tempElement (fetchWeatherData_settle U (Inr w) l doc)
             = [N (Math_round (celsiusToFahrenheit n)), S degree_F]"
    and "textDescription p = Val s \<and> s \<noteq> [] \<longrightarrow>
           conditionElement (fetchWeatherData_settle U (Inr w) l doc) = [S s]"
  using assms
  by (simp_all add: fetchWeatherData_settle_def updateWeatherUI_def show_data_current
      update_current_parts update_temperature_def update_condition_def truthy_num_def
      toNumber_def)

text \<open>
  C1, as the code has it. A fetch carries no token and no result is discarded. Take any
  session in which A is selected, then B, and then, with no further selection, fetches
  other than A's settle in any number (B's among them or not); then A's fetch settles.
  The search box shows B, and the page is what \<open>updateWeatherUI\<close> makes of the page as
  it was, with A's location and A's result. So the header names A (on a page whose
  header contains \<open>Current Conditions\<close>); if A's requests failed, the page shows
  \<open>--\<degree>F\<close> and the error message; if they succeeded, the temperature element
  shows A's rounded temperature when A's observation has a temperature value that is a
  number other than zero and \<open>NaN\<close>, and the description element shows A's
  description when that is a string that is not empty.
\<close>

theorem settled_fetch_is_written_whatever_is_selected:
  assumes sel: "\<forall>X. Selected X \<notin> set mid" and notyet: "Settled A \<notin> set mid"
  shows "searchInput_value
           (widget (run U net a (pre @ [Selected A, Selected B] @ mid @ [Settled A])))
           = displayText B
       \<and> document (run U net a (pre @ [Selected A, Selected B] @ mid @ [Settled A]))
           = fetchWeatherData_settle U (request_weather net (lat A) (lng A)) A
               (document (run U net a (pre @ [Selected A, Selected B] @ mid)))
       \<and> (includes_str (locationHeader (document a)) current_conditions \<longrightarrow>
            locationHeader
              (document (run U net a (pre @ [Selected A, Selected B] @ mid @ [Settled A])))
              = city A @ str '', '' @ state A @ str '' - '' @ current_conditions)
       \<and> (isl (request_weather net (lat A) (lng A)) \<longrightarrow>
            tempElement
              (document (run U net a (pre @ [Selected A, Selected B] @ mid @ [Settled A])))
              = [S ([45, 45] @ degree_F)]
            \<and> conditionElement
              (document (run U net a (pre @ [Selected A, Selected B] @ mid @ [Settled A])))
              = [S error_message])
       \<and> (request_weather net (lat A) (lng A) = Inr w
            \<and> current w = Val (Observation (Val p)) \<longrightarrow>
            (temperature p = Val (Quantity (Val n)) \<and> n \<noteq> NaN \<and> n \<noteq> Fin 0 \<longrightarrow>
               tempElement
                 (document (run U net a (pre @ [Selected A, Selected B] @ mid @ [Settled A])))
                 = [N (Math_round (celsiusToFahrenheit n)), S degree_F])
            \<and> (textDescription p = Val s \<and> s \<noteq> [] \<longrightarrow>
               conditionElement
                 (document (run U net a (pre @ [Selected A, Selected B] @ mid @ [Settled A])))
                 = [S s]))"
proof -
  define a0 where "a0 = run U net a pre"
  define a2 where "a2 = selectLocation U B (selectLocation U A a0)"
  define before where "before = run U net a (pre @ [Selected A, Selected B] @ mid)"
  define after where "after = run U net a (pre @ [Selected A, Selected B] @ mid @ [Settled A])"
  have b: "before = run U net a2 mid"
    by (simp add: before_def a2_def a0_def run_def step_def)
  have "after = run U net a ((pre @ [Selected A, Selected B] @ mid) @ [Settled A])"
    by (simp add: after_def)
  then have af: "after = step U net before (Settled A)"
    unfolding run_snoc before_def .
  have "A \<in> set (in_flight a2)"
    by (simp add: a2_def selectLocation_def)
  then have fl: "A \<in> set (in_flight before)"
    unfolding b using notyet by (rule run_keeps_in_flight)
  have "widget before = widget a2"
    unfolding b using sel by (rule run_settlements_widget)
  then have w: "searchInput_value (widget after) = displayText B"
    by (simp add: af step_Settled_widget a2_def selectLocation_def hideSuggestions_def)
  have d: "document after
      = fetchWeatherData_settle U (request_weather net (lat A) (lng A)) A (document before)"
    using fl by (simp add: af step_def)
  have h: "locationHeader (document after)
      = city A @ str '', '' @ state A @ str '' - '' @ current_conditions"
    if "includes_str (locationHeader (document a)) current_conditions"
  proof -
    from that have "includes_str (locationHeader (document before)) current_conditions"
      unfolding before_def by (rule run_header_includes)
    then show ?thesis
      by (simp add: d settle_header update_header_sets)
  qed
  have e: "tempElement (document after) = [S ([45, 45] @ degree_F)]
      \<and> conditionElement (document after) = [S error_message]"
    if "isl (request_weather net (lat A) (lng A))"
    using that by (simp add: d settle_failure show_message_fields)
  have s: "(temperature p = Val (Quantity (Val n)) \<and> n \<noteq> NaN \<and> n \<noteq> Fin 0 \<longrightarrow>
             tempElement (document after)
               = [N (Math_round (celsiusToFahrenheit n)), S degree_F])
         \<and> (textDescription p = Val s \<and> s \<noteq> [] \<longrightarrow>
             conditionElement (document after) = [S s])"
    if "request_weather net (lat A) (lng A) = Inr w"
      and "current w = Val (Observation (Val p))"
    using settle_result_success [OF that(2)] that(1)
    by (simp add: d)
  show ?thesis
    using w d h e s unfolding after_def before_def by blast
qed

theorem settled_fetch_is_written_whatever_is_selected_witness:
  "Settled boston \<notin> set [Settled denver]
   \<and> includes_str (locationHeader (document app0)) current_conditions
   \<and> request_weather demo_net (lat boston) (lng boston) = Inr boston_weather
   \<and> current boston_weather = Val (Observation (Val (properties_of 20 (str ''Sunny''))))
   \<and> temperature (properties_of 20 (str ''Sunny'')) = Val (Quantity (Val (Fin 20)))
   \<and> textDescription (properties_of 20 (str ''Sunny'')) = Val (str ''Sunny'')
   \<and> searchInput_value (widget (run latin1 demo_net app0
        [Selected boston, Selected denver, Settled denver, Settled boston]))
       = displayText denver
   \<and> locationHeader (document (run latin1 demo_net app0
        [Selected boston, Selected denver, Settled denver, Settled boston]))
       = city boston @ str '', '' @ state boston @ str '' - '' @ current_conditions
   \<and> tempElement (document (run latin1 demo_net app0
        [Selected boston, Selected denver, Settled denver, Settled boston]))
       = [N (Math_round (celsiusToFahrenheit (Fin 20))), S degree_F]
   \<and> conditionElement (document (run latin1 demo_net app0
        [Selected boston, Selected denver, Settled denver, Settled boston]))
       = [S (str ''Sunny'')]
   \<and> isl (request_weather no_observation_net (lat boston) (lng boston))
   \<and> searchInput_value (widget (run latin1 no_observation_net app0
        [Selected boston, Selected denver, Settled boston]))
       = displayText denver
   \<and> tempElement (document (run latin1 no_observation_net app0
        [Selected boston, Selected denver, Settled boston]))
       = [S ([45, 45] @ degree_F)]
   \<and> conditionElement (document (run latin1 no_observation_net app0
        [Selected boston, Selected denver, Settled boston]))
       = [S error_message]"
proof -
  have "boston \<noteq> denver"
    by (simp add: boston_def denver_def str_def)
  then have m1: "\<forall>X. Selected X \<notin> set [Settled denver]"
    and m2: "Settled boston \<notin> set [Settled denver]"
    by simp_all
  have n1: "\<forall>X. Selected X \<notin> set []" and n2: "Settled boston \<notin> set []"
    by simp_all
  have h0: "includes_str (locationHeader (document app0)) current_conditions"
    using includes_str_append [of "[]" current_conditions] by (simp add: app0_def page0_def)
  have h1: "request_weather demo_net (lat boston) (lng boston) = Inr boston_weather"
    by code_simp
  have h2: "current boston_weather = Val (Observation (Val (properties_of 20 (str ''Sunny''))))"
    by (simp add: boston_weather_def observation_of_def)
  have h3: "temperature (properties_of 20 (str ''Sunny'')) = Val (Quantity (Val (Fin 20)))"
    and h4: "textDescription (properties_of 20 (str ''Sunny'')) = Val (str ''Sunny'')"
    by (simp_all add: properties_of_def)
  have h5: "Fin 20 \<noteq> NaN \<and> Fin 20 \<noteq> Fin 0" and h6: "str ''Sunny'' \<noteq> []"
    by (simp_all add: str_def)
  have f1: "isl (request_weather no_observation_net (lat boston) (lng boston))"
    by code_simp
  have r1: "[] @ [Selected boston, Selected denver] @ [Settled denver] @ [Settled boston]
      = [Selected boston, Selected denver, Settled denver, Settled boston]"
    and r2: "[] @ [Selected boston, Selected denver] @ [Settled denver]
      = [Selected boston, Selected denver, Settled denver]"
    and r3: "[] @ [Selected boston, Selected denver] @ [] @ [Settled boston]
      = [Selected boston, Selected denver, Settled boston]"
    and r4: "[] @ [Selected boston, Selected denver] @ [] = [Selected boston, Selected denver]"
    by simp_all
  note ok = settled_fetch_is_written_whatever_is_selected [OF m1 m2,
      where U = latin1 and net = demo_net and a = app0 and pre = "[]" and B = denver
        and w = boston_weather and p = "properties_of 20 (str ''Sunny'')" and n = "Fin 20"
        and s = "str ''Sunny''", unfolded r1 r2]
  note failed = settled_fetch_is_written_whatever_is_selected [OF n1 n2,
      where U = latin1 and net = no_observation_net and a = app0 and pre = "[]"
        and B = denver and w = boston_weather and p = "properties_of 20 (str ''Sunny'')"
        and n = "Fin 20" and s = "str ''Sunny''", unfolded r3 r4]
  show ?thesis
    using m2 h0 h1 h2 h3 h4 h5 h6 f1 ok failed
    by blast
qed

text \<open>
  C1 as stated fails: Boston is selected, then Denver; Denver's fetch settles, then
  Boston's. The page ends with Boston's name and Boston's 68 \<degree>F, although Denver
  is the most recent selection and the one in the search box. Had Boston's fetch settled
  first, the page would show Denver's 86 \<degree>F.
\<close>

theorem stale_response_counterexample:
  "tempElement (document (run latin1 demo_net app0
      [Selected boston, Selected denver, Settled denver, Settled boston]))
     = [N (Fin 68), S degree_F]
   \<and> locationHeader (document (run latin1 demo_net app0
      [Selected boston, Selected denver, Settled denver, Settled boston]))
     = str ''Boston, MA - Current Conditions''
   \<and> searchInput_value (widget (run latin1 demo_net app0
      [Selected boston, Selected denver, Settled denver, Settled boston]))
     = str ''Denver, CO 80202''
   \<and> tempElement (document (run latin1 demo_net app0
      [Selected boston, Selected denver, Settled boston, Settled denver]))
     = [N (Fin 86), S degree_F]"
  by code_simp

section \<open>Loading the locations\<close>

lemma js_times_minus_NaN: "js_times (Fin (- 1)) x = NaN \<longleftrightarrow> x = NaN"
  by (cases x) (simp_all add: js_times_def inf_of_sign_def sign_of_def)

lemma unsigned_literal_NaN:
  "unsigned_literal r = NaN \<longleftrightarrow>
     \<not> (startsWith r (str ''Infinity'')
        \<or> (case r of
              [] \<Rightarrow> False
            | c # t \<Rightarrow>
                isDigit c \<or> (c = 46 \<and> (case t of [] \<Rightarrow> False | d # u \<Rightarrow> isDigit d))))"
proof (cases "startsWith r (str ''Infinity'')")
  case True
  then show ?thesis
    by (simp add: unsigned_literal_def)
next
  case False
  show ?thesis
  proof (cases r)
    case Nil
    with False show ?thesis
      by (simp add: unsigned_literal_def)
  next
    case (Cons c t)
    show ?thesis
    proof (cases "isDigit c")
      case True
      with False Cons show ?thesis
        by (simp add: unsigned_literal_def Let_def)
    next
      case nd: False
      show ?thesis
      proof (cases t)
        case Nil
        with False Cons nd show ?thesis
          by (simp add: unsigned_literal_def Let_def)
      next
        case (Cons d u)
        with False \<open>r = c # t\<close> nd show ?thesis
          by (simp add: unsigned_literal_def Let_def)
      qed
    qed
  qed
qed

text \<open>\<open>parseFloat\<close> gives \<open>NaN\<close> exactly on the strings that do not start with a number.\<close>

lemma parseFloat_NaN: "parseFloat s = NaN \<longleftrightarrow> \<not> starts_with_number s"
proof (cases "dropWhile isWhiteSpace s")
  case Nil
  show ?thesis
    unfolding parseFloat_def starts_with_number_def after_sign_def Nil
    by (simp add: startsWith_def str_def)
next
  case (Cons c r)
  show ?thesis
    unfolding parseFloat_def starts_with_number_def after_sign_def Cons
    by (simp add: js_times_minus_NaN unsigned_literal_NaN)
qed

lemma starts_with_number_examples:
  "\<not> starts_with_number []"
  "\<not> starts_with_number (str ''north'')"
  "starts_with_number (str ''42.36'')"
  "starts_with_number (str '' -71.06'')"
  "starts_with_number (str ''Infinity'')"
  by (simp_all add: starts_with_number_def after_sign_def startsWith_def str_def isDigit_def
      isWhiteSpace_def)

text \<open>The record that the callback builds from a line of at least four fields.\<close>

lemma parse_line_fields:
  assumes "4 \<le> length (split 44 line)"
  shows "parse_line line =
     Inr (let v = split 44 line;
              st = (if 5 \<le> length v \<and> v ! 4 \<noteq> [] then trim (v ! 4) else str ''Unknown'')
          in \<lparr> zip_code = trim (v ! 0), lat = parseFloat (v ! 1), lng = parseFloat (v ! 2),
               city = trim (v ! 3), state = st,
               displayText = trim (v ! 3) @ str '', '' @ st @ str '' '' @ trim (v ! 0) \<rparr>)"
  using assms by (auto simp: parse_line_def elem_at_def Let_def parseFloat_arg_def)

lemma try_map_map:
  assumes "\<forall>x\<in>set xs. f x = Inr (g x)"
  shows "try_map f xs = Inr (map g xs)"
  using assms by (induction xs) simp_all

text \<open>A line of fewer than four fields raises, and the error ends the whole load.\<close>

lemma parse_line_short:
  assumes "length (split 44 line) < 4"
  shows "parse_line line = Inl TypeError"
  using assms by (simp add: parse_line_def elem_at_def Let_def split: option.splits)

lemmas csv_defs =
  parse_csv_def csv_good_def csv_four_fields_def csv_two_fields_def csv_header_def
  csv_boston_def str_def trim_def isWhiteSpace_def parse_line_def elem_at_def
  parseFloat_arg_def parseFloat_def unsigned_literal_def startsWith_def isDigit_def
  digits_value_def exponent_part_def isNaN_def js_times_def inf_of_sign_def sign_of_def
  csv_mixed_def csv_no_latitude_def csv_word_latitude_def csv_no_state_def

lemma short_row_loses_the_dataset:
  "LocationSearch_loadLocations (Inr csv_good) widget0 = widget0\<lparr>locations := [boston]\<rparr>"
  "LocationSearch_loadLocations (Inr csv_two_fields) widget0 = widget0"
  by (simp_all add: LocationSearch_loadLocations_def csv_defs boston_def)

lemma loadLocations_fields:
  "\<forall>l\<in>set (loadLocations data).
      s_zip l \<noteq> [] \<and> s_city l \<noteq> [] \<and> s_state_id l \<noteq> [] \<and> s_lat l \<noteq> [] \<and> s_lng l \<noteq> []"
  by (auto simp: loadLocations_def List.map_filter_def split: option.splits if_splits)

text \<open>The script's loader does not look at what the coordinates are.\<close>

lemma loadLocations_unparsable:
  "map s_lat (loadLocations [unparsable_row]) = [str ''north'']"
  by (simp add: loadLocations_def List.map_filter_def unparsable_row_def str_def)

text \<open>
  C9, as the code has it. The class's loader returns in every case, with the locations
  as they were or replaced (its errors are caught). When every line after the header
  has at least four fields, the load completes, and the locations loaded are, in the
  order of the file, one record for each line whose second and third fields both start
  with a number; an empty field does not, so a line whose latitude or longitude is
  missing or not numeric is left out. The record has the trimmed first and fourth
  fields as zip and city, \<open>parseFloat\<close> of the second and third as latitude and
  longitude, neither of them \<open>NaN\<close>, and as state the trimmed fifth field, or
  \<open>Unknown\<close> when the fifth field is missing or empty. The script's loader loads only
  rows whose five fields are all present and not empty. Nothing is said here of a line
  with fewer than four fields.
\<close>

theorem loader_keeps_rows_with_coordinates:
  "(LocationSearch_loadLocations fetched this = this
      \<or> (\<exists>locs. LocationSearch_loadLocations fetched this = this\<lparr>locations := locs\<rparr>))
   \<and> ((\<forall>line\<in>set (drop 1 (split 10 (trim csvText))). 4 \<le> length (split 44 line)) \<longrightarrow>
        (\<exists>locs.
           locs = map (\<lambda>line.
                    let v = split 44 line;
                        st = (if 5 \<le> length v \<and> v ! 4 \<noteq> [] then trim (v ! 4)
                              else str ''Unknown'')
                    in \<lparr> zip_code = trim (v ! 0), lat = parseFloat (v ! 1),
                         lng = parseFloat (v ! 2), city = trim (v ! 3), state = st,
                         displayText = trim (v ! 3) @ str '', '' @ st @ str '' ''
                                       @ trim (v ! 0) \<rparr>)
                  (filter (\<lambda>line. starts_with_number (split 44 line ! 1)
                                  \<and> starts_with_number (split 44 line ! 2))
                     (drop 1 (split 10 (trim csvText))))
           \<and> parse_csv csvText = Inr locs
           \<and> LocationSearch_loadLocations (Inr csvText) this = this\<lparr>locations := locs\<rparr>
           \<and> (\<forall>l\<in>set locs. lat l \<noteq> NaN \<and> lng l \<noteq> NaN)))
   \<and> \<not> starts_with_number []
   \<and> (\<forall>l\<in>set (loadLocations data).
         s_zip l \<noteq> [] \<and> s_city l \<noteq> [] \<and> s_state_id l \<noteq> [] \<and> s_lat l \<noteq> []
         \<and> s_lng l \<noteq> [])"
proof -
  let ?lines = "drop 1 (split 10 (trim csvText))"
  let ?row = "\<lambda>line.
      let v = split 44 line;
          st = (if 5 \<le> length v \<and> v ! 4 \<noteq> [] then trim (v ! 4) else str ''Unknown'')
      in \<lparr> zip_code = trim (v ! 0), lat = parseFloat (v ! 1), lng = parseFloat (v ! 2),
           city = trim (v ! 3), state = st,
           displayText = trim (v ! 3) @ str '', '' @ st @ str '' '' @ trim (v ! 0) \<rparr>"
  let ?num = "\<lambda>line. starts_with_number (split 44 line ! 1)
      \<and> starts_with_number (split 44 line ! 2)"
  have total: "LocationSearch_loadLocations fetched this = this
      \<or> (\<exists>locs. LocationSearch_loadLocations fetched this = this\<lparr>locations := locs\<rparr>)"
    by (auto simp: LocationSearch_loadLocations_def split: sum.splits)
  have main: "parse_csv csvText = Inr (map ?row (filter ?num ?lines))
      \<and> LocationSearch_loadLocations (Inr csvText) this
          = this\<lparr>locations := map ?row (filter ?num ?lines)\<rparr>
      \<and> (\<forall>l\<in>set (map ?row (filter ?num ?lines)). lat l \<noteq> NaN \<and> lng l \<noteq> NaN)"
    if four: "\<forall>line\<in>set ?lines. 4 \<le> length (split 44 line)"
  proof -
    have "\<forall>line\<in>set ?lines. parse_line line = Inr (?row line)"
      using four parse_line_fields by blast
    then have t: "try_map parse_line ?lines = Inr (map ?row ?lines)"
      by (rule try_map_map)
    have k: "(\<not> isNaN (lat (?row line)) \<and> \<not> isNaN (lng (?row line))) = ?num line" for line
      by (simp add: isNaN_def Let_def parseFloat_NaN)
    have "filter (\<lambda>l. \<not> isNaN (lat l) \<and> \<not> isNaN (lng l)) (map ?row ?lines)
        = map ?row (filter ?num ?lines)"
      unfolding filter_map comp_def k ..
    with t have p: "parse_csv csvText = Inr (map ?row (filter ?num ?lines))"
      unfolding parse_csv_def by simp
    moreover have "LocationSearch_loadLocations (Inr csvText) this
          = this\<lparr>locations := map ?row (filter ?num ?lines)\<rparr>"
      by (simp add: LocationSearch_loadLocations_def p)
    moreover have "\<forall>l\<in>set (map ?row (filter ?num ?lines)). lat l \<noteq> NaN \<and> lng l \<noteq> NaN"
      by (auto simp: Let_def parseFloat_NaN)
    ultimately show ?thesis
      by blast
  qed
  from total main starts_with_number_examples(1) loadLocations_fields [of data]
  show ?thesis
    by blast
qed

theorem loader_keeps_rows_with_coordinates_witness:
  "drop 1 (split 10 (trim csv_mixed))
     = [csv_boston, csv_no_latitude, csv_word_latitude, csv_no_state]
   \<and> map (\<lambda>line. length (split 44 line))
        [csv_boston, csv_no_latitude, csv_word_latitude, csv_no_state] = [5, 5, 5, 4]
   \<and> split 44 csv_no_latitude ! 1 = []
   \<and> split 44 csv_word_latitude ! 1 = str ''north''
   \<and> parse_csv csv_mixed = Inr [boston, denver_unknown]
   \<and> LocationSearch_loadLocations (Inr csv_mixed) widget0
       = widget0\<lparr>locations := [boston, denver_unknown]\<rparr>"
proof -
  have l: "drop 1 (split 10 (trim csv_mixed))
      = [csv_boston, csv_no_latitude, csv_word_latitude, csv_no_state]"
    by (simp add: csv_defs)
  have n: "map (\<lambda>line. length (split 44 line))
      [csv_boston, csv_no_latitude, csv_word_latitude, csv_no_state] = [5, 5, 5, 4]"
    by (simp add: csv_defs)
  have f: "split 44 csv_no_latitude ! 1 = []" "split 44 csv_word_latitude ! 1 = str ''north''"
    by (simp_all add: csv_defs)
  have h: "\<forall>line\<in>set (drop 1 (split 10 (trim csv_mixed))). 4 \<le> length (split 44 line)"
    unfolding l using n by simp
  have p: "parse_csv csv_mixed = Inr [boston, denver_unknown]"
    by (simp add: csv_defs boston_def denver_unknown_def)
  from loader_keeps_rows_with_coordinates [of "Inr csv_mixed" widget0 csv_mixed "[]"] h
  obtain locs where "parse_csv csv_mixed = Inr locs"
    and "LocationSearch_loadLocations (Inr csv_mixed) widget0 = widget0\<lparr>locations := locs\<rparr>"
    by blast
  with p have "LocationSearch_loadLocations (Inr csv_mixed) widget0
      = widget0\<lparr>locations := [boston, denver_unknown]\<rparr>"
    by simp
  with l n f p show ?thesis
    by blast
qed

text \<open>
  C9 as stated fails on a file whose last row has four fields and the latitude
  \<open>Infinity\<close>: the row has fewer columns than the header and a latitude that is not
  finite, and it is loaded, with the state \<open>Unknown\<close>.
\<close>

theorem partial_row_loaded_counterexample:
  "parse_csv csv_four_fields =
     Inr [boston,
          \<lparr> zip_code = str ''80202'', lat = PosInf, lng = Fin (- (10499 / 100)),
            city = str ''Denver'', state = str ''Unknown'',
            displayText = str ''Denver, Unknown 80202'' \<rparr>]"
  by (simp add: csv_defs boston_def)



end
